theory Spec2Isabelle
  imports Complex_Main
begin

section \<open>Python and pandas values\<close>

text \<open>
  The two dashboards \<^verbatim>\<open>app_ca.py\<close> and \<^verbatim>\<open>src/cali.py\<close> are scripts over a pandas
  data frame. Exceptions are values of \<open>error\<close>. A float is a \<open>real option\<close>: \<open>None\<close> is
  NaN (pandas' missing value), \<open>Some x\<close> is the number \<open>x\<close>. The arithmetic of the columns
  is exact: it is the arithmetic of the scripts with the rounding of every operation left
  out, and a statement below that depends on exactness says so. The rounded operations
  of binary64 are in the section on binary64 arithmetic, where the standardisation is
  evaluated as the scripts compute it. The infinities of IEEE arithmetic are outside the
  model. A string is a list of 8-bit characters, and the string methods are Python's on
  ASCII strings; \<open>ascii\<close> says that a string has no other character.
\<close>

datatype error = KeyError string | ZeroDivisionError | ValueError

type_synonym series = "real option list"

subsection \<open>String methods\<close>

definition startswith :: "string \<Rightarrow> string \<Rightarrow> bool" where
  "startswith s p = (take (length p) s = p)"

definition upper_char :: "char \<Rightarrow> char" where
  "upper_char c =
     (case map_of (zip ''abcdefghijklmnopqrstuvwxyz'' ''ABCDEFGHIJKLMNOPQRSTUVWXYZ'') c of
        None \<Rightarrow> c
      | Some u \<Rightarrow> u)"

definition upper :: "string \<Rightarrow> string" where
  "upper s = map upper_char s"

definition isspace :: "char \<Rightarrow> bool" where
  "isspace c = (c \<in> set [CHR 0x09, CHR 0x0A, CHR 0x0B, CHR 0x0C, CHR 0x0D,
                           CHR 0x1C, CHR 0x1D, CHR 0x1E, CHR 0x1F, CHR '' ''])"

definition strip :: "string \<Rightarrow> string" where
  "strip s = rev (dropWhile isspace (rev (dropWhile isspace s)))"

text \<open>
  The three methods above are \<^verbatim>\<open>str.upper\<close>, \<^verbatim>\<open>str.isspace\<close> and \<^verbatim>\<open>str.strip\<close> on
  the characters below 128; Python also maps letters and strips spaces above 127.
\<close>

definition ascii :: "string \<Rightarrow> bool" where
  "ascii s = (\<forall>c \<in> set s. \<not> digit7 c)"

text \<open>
  \<^verbatim>\<open>s.zfill(width)\<close>: a string at least \<open>width\<close> long is returned as it is; otherwise
  zeros are inserted, after a leading sign if there is one.
\<close>

definition signed :: "string \<Rightarrow> bool" where
  "signed s = (case s of [] \<Rightarrow> False | c # rest \<Rightarrow> c = CHR ''+'' \<or> c = CHR ''-'')"

definition zfill :: "nat \<Rightarrow> string \<Rightarrow> string" where
  "zfill width s =
     (if width \<le> length s then s
      else case s of
             [] \<Rightarrow> replicate width (CHR ''0'')
           | c # rest \<Rightarrow>
               if c = CHR ''+'' \<or> c = CHR ''-''
               then c # replicate (width - length s) (CHR ''0'') @ rest
               else replicate (width - length s) (CHR ''0'') @ s)"

text \<open>\<^verbatim>\<open>str(v)\<close> of a cell that holds a string or Python's \<^verbatim>\<open>None\<close>.\<close>

definition astype_str :: "string option \<Rightarrow> string" where
  "astype_str v = (case v of None \<Rightarrow> ''None'' | Some s \<Rightarrow> s)"

section \<open>Identifier normalisation\<close>

text \<open>
  A feature of the boundary GeoJSON: its \<^verbatim>\<open>id\<close> (read with \<^verbatim>\<open>feat.get("id", "")\<close>) and
  the three properties the lookup reads.
\<close>

record feature =
  feat_id :: "string option"
  NAME :: string
  STATEFP :: string
  COUNTYFP :: string

text \<open>The filter of the fetched features to the ids that start with \<^verbatim>\<open>06\<close>.\<close>

definition california :: "feature list \<Rightarrow> feature list" where
  "california feats =
     filter (\<lambda>feat. startswith (case feat_id feat of None \<Rightarrow> [] | Some i \<Rightarrow> i) ''06'') feats"

fun fips_lookup :: "feature list \<Rightarrow> string \<Rightarrow> string option" where
  "fips_lookup [] county_name = None"
| "fips_lookup (feat # feats) county_name =
     (if upper (NAME feat) = upper (strip county_name)
      then Some (STATEFP feat @ COUNTYFP feat)
      else fips_lookup feats county_name)"

text \<open>
  The lambda \<^verbatim>\<open>x if x.startswith("06") else "06" + x[-3:]\<close>, and its composition with
  \<^verbatim>\<open>zfill(5)\<close>, which is what both scripts apply to every cell of the \<^verbatim>\<open>fips\<close> column.
\<close>

definition state_prefix :: "string \<Rightarrow> string" where
  "state_prefix x = (if startswith x ''06'' then x else ''06'' @ drop (length x - 3) x)"

definition normalize_fips :: "string \<Rightarrow> string" where
  "normalize_fips x = state_prefix (zfill 5 x)"

section \<open>The data frame\<close>

text \<open>
  A frame maps column names to columns. The text columns (\<^verbatim>\<open>County\<close>, \<^verbatim>\<open>GEOID\<close>, \<^verbatim>\<open>fips\<close>)
  hold the cells as \<^verbatim>\<open>astype(str)\<close> renders them; the numeric columns hold floats.
\<close>

record frame =
  str_cols :: "string \<rightharpoonup> string list"
  num_cols :: "string \<rightharpoonup> series"

definition set_str :: "string \<Rightarrow> string list \<Rightarrow> frame \<Rightarrow> frame" where
  "set_str c xs df = df\<lparr>str_cols := (str_cols df)(c \<mapsto> xs)\<rparr>"

definition set_num :: "string \<Rightarrow> series \<Rightarrow> frame \<Rightarrow> frame" where
  "set_num c xs df = df\<lparr>num_cols := (num_cols df)(c \<mapsto> xs)\<rparr>"

text \<open>All columns of a data frame have one length, its number of rows.\<close>

definition wf_frame :: "nat \<Rightarrow> frame \<Rightarrow> bool" where
  "wf_frame n df =
     ((\<forall>c xs. str_cols df c = Some xs \<longrightarrow> length xs = n) \<and>
      (\<forall>c xs. num_cols df c = Some xs \<longrightarrow> length xs = n))"

text \<open>The \<^verbatim>\<open>fips\<close> column as \<^verbatim>\<open>app_ca.py\<close> builds it (lines 46 to 61).\<close>

definition ensure_fips_app :: "feature list \<Rightarrow> frame \<Rightarrow> error + frame" where
  "ensure_fips_app counties df =
     (case str_cols df ''GEOID'' of
        Some g \<Rightarrow> Inr (set_str ''fips'' (map (state_prefix \<circ> zfill 5) g) df)
      | None \<Rightarrow>
         (case str_cols df ''fips'' of
            Some f \<Rightarrow> Inr (set_str ''fips'' (map (state_prefix \<circ> zfill 5) f) df)
          | None \<Rightarrow>
             (case str_cols df ''County'' of
                None \<Rightarrow> Inl (KeyError ''County'')
              | Some cs \<Rightarrow>
                  Inr (set_str ''fips''
                        (map (state_prefix \<circ> zfill 5 \<circ> astype_str \<circ> fips_lookup counties) cs) df))))"

text \<open>The \<^verbatim>\<open>fips\<close> column as \<^verbatim>\<open>cali.py\<close> builds it (lines 29 to 38).\<close>

definition ensure_fips_cali :: "feature list \<Rightarrow> frame \<Rightarrow> error + frame" where
  "ensure_fips_cali counties df =
     (case str_cols df ''fips'' of
        Some f \<Rightarrow> Inr (set_str ''fips'' (map (state_prefix \<circ> zfill 5) f) df)
      | None \<Rightarrow>
         (case str_cols df ''County'' of
            None \<Rightarrow> Inl (KeyError ''County'')
          | Some cs \<Rightarrow>
              Inr (set_str ''fips''
                    (map (state_prefix \<circ> zfill 5 \<circ> astype_str \<circ> fips_lookup counties) cs) df)))"

section \<open>Weights\<close>

text \<open>
  The preset vectors; any other preset name reads the nine sliders, \<open>sliders i\<close> being
  the value of the \<open>i\<close>-th one.
\<close>

definition preset_weights :: "string \<Rightarrow> (nat \<Rightarrow> real) \<Rightarrow> real list" where
  "preset_weights preset sliders =
     (if preset = ''Even'' then replicate 9 (1 / 9)
      else if preset = ''Income-heavy'' then [0.4, 0.1, 0.1, 0.1, 0.1, 0.05, 0.05, 0.05, 0.05]
      else if preset = ''Education-heavy'' then [0.1, 0.4, 0.1, 0.1, 0.1, 0.05, 0.05, 0.05, 0.05]
      else if preset = ''Equity-focused'' then [0.05, 0.05, 0.3, 0.05, 0.1, 0.05, 0.2, 0.1, 0.1]
      else if preset = ''Stability-focused'' then [0.05, 0.05, 0.05, 0.05, 0.2, 0.05, 0.1, 0.3, 0.15]
      else map sliders [0..<9])"

text \<open>The custom choice with every slider moved to 0, the least value a slider has.\<close>

definition zero_sliders :: "nat \<Rightarrow> real" where
  "zero_sliders i = 0"

definition named_presets :: "string list" where
  "named_presets =
     [''Even'', ''Income-heavy'', ''Education-heavy'', ''Equity-focused'', ''Stability-focused'']"

text \<open>
  Lines 93 to 95 of \<^verbatim>\<open>app_ca.py\<close>: the sum, the division of every weight by it
  (\<^verbatim>\<open>ZeroDivisionError\<close> at the first weight when the sum is 0), and the unpacking into
  nine names (\<^verbatim>\<open>ValueError\<close> unless there are exactly nine).
\<close>

definition normalize_weights :: "real list \<Rightarrow> error + real list" where
  "normalize_weights w =
     (let total_w = sum_list w in
      if w \<noteq> [] \<and> total_w = 0 then Inl ZeroDivisionError
      else let w' = map (\<lambda>wi. wi / total_w) w in
           if length w' = 9 then Inr w' else Inl ValueError)"

section \<open>Standardisation\<close>

subsection \<open>Float arithmetic with NaN\<close>

definition fneg :: "real option \<Rightarrow> real option" where
  "fneg a = map_option uminus a"

definition fsub :: "real option \<Rightarrow> real option \<Rightarrow> real option" where
  "fsub a b = (case a of None \<Rightarrow> None | Some x \<Rightarrow> (case b of None \<Rightarrow> None | Some y \<Rightarrow> Some (x - y)))"

definition fadd :: "real option \<Rightarrow> real option \<Rightarrow> real option" where
  "fadd a b = (case a of None \<Rightarrow> None | Some x \<Rightarrow> (case b of None \<Rightarrow> None | Some y \<Rightarrow> Some (x + y)))"

definition fmul :: "real option \<Rightarrow> real \<Rightarrow> real option" where
  "fmul a w = map_option (\<lambda>x. x * w) a"

text \<open>
  Division of floats in numpy does not raise: \<open>0 / 0\<close> is NaN. A nonzero number over 0
  would be an infinity, which the model does not have; \<open>std_zero_deviation\<close> below shows
  that the standardisation never divides a nonzero deviation by a zero deviation.
\<close>

definition fdiv :: "real option \<Rightarrow> real option \<Rightarrow> real option" where
  "fdiv a b =
     (case a of None \<Rightarrow> None
      | Some x \<Rightarrow> (case b of None \<Rightarrow> None
                   | Some y \<Rightarrow> if y = 0 then None else Some (x / y)))"

text \<open>Comparison of floats: anything compared with NaN is false.\<close>

definition fgt :: "real option \<Rightarrow> real option \<Rightarrow> bool" where
  "fgt a b = (case a of None \<Rightarrow> False | Some x \<Rightarrow> (case b of None \<Rightarrow> False | Some y \<Rightarrow> x > y))"

subsection \<open>Column statistics\<close>

text \<open>pandas' reductions skip the missing cells.\<close>

fun dropna :: "series \<Rightarrow> real list" where
  "dropna [] = []"
| "dropna (None # xs) = dropna xs"
| "dropna (Some x # xs) = x # dropna xs"

definition mean_list :: "real list \<Rightarrow> real" where
  "mean_list ys = sum_list ys / real (length ys)"

definition sumsq_dev :: "real list \<Rightarrow> real" where
  "sumsq_dev ys = sum_list (map (\<lambda>y. (y - mean_list ys)\<^sup>2) ys)"

text \<open>\<^verbatim>\<open>Series.mean()\<close>: NaN when no cell is present.\<close>

definition series_mean :: "series \<Rightarrow> real option" where
  "series_mean xs = (let ys = dropna xs in if ys = [] then None else Some (mean_list ys))"

text \<open>
  \<^verbatim>\<open>Series.std()\<close>, whose default is \<^verbatim>\<open>ddof=1\<close>: the squared deviations are divided by
  the count minus one, and the result is NaN when fewer than two cells are present.
\<close>

definition series_std :: "series \<Rightarrow> real option" where
  "series_std xs =
     (let ys = dropna xs in
      if length ys \<le> 1 then None
      else Some (sqrt (sumsq_dev ys / real (length ys - 1))))"

text \<open>\<^verbatim>\<open>(df[col] - df[col].mean()) / df[col].std()\<close> and its negation.\<close>

definition zscore :: "series \<Rightarrow> series" where
  "zscore xs = map (\<lambda>x. fdiv (fsub x (series_mean xs)) (series_std xs)) xs"

definition neg_zscore :: "series \<Rightarrow> series" where
  "neg_zscore xs = map fneg (zscore xs)"

subsection \<open>The loops that add the \<^verbatim>\<open>Z_\<close> columns\<close>

definition indicator_cols :: "string list" where
  "indicator_cols =
     [''Median_Household_Income'', ''Bachelors_Degree_Pct'',
      ''Unemployment_Rate'', ''No_Health_Insurance_Pct'',
      ''Median_Gross_Rent'', ''Broadband_Pct'',
      ''High_School_Grad_Pct'', ''Upward_Mobility'', ''Gini_Index'']"

definition negative_cols :: "string list" where
  "negative_cols =
     [''Unemployment_Rate'', ''No_Health_Insurance_Pct'', ''Median_Gross_Rent'', ''Gini_Index'']"

text \<open>One iteration: a column that the frame does not have is skipped.\<close>

definition add_z :: "string list \<Rightarrow> string \<Rightarrow> frame \<Rightarrow> frame" where
  "add_z negs col df =
     (case num_cols df col of
        None \<Rightarrow> df
      | Some xs \<Rightarrow>
          set_num (''Z_'' @ col) (if col \<in> set negs then neg_zscore xs else zscore xs) df)"

text \<open>\<^verbatim>\<open>app_ca.py\<close>, lines 105 to 117: one loop over the nine indicators.\<close>

definition z_columns_app :: "frame \<Rightarrow> frame" where
  "z_columns_app df = fold (add_z negative_cols) indicator_cols df"

text \<open>\<^verbatim>\<open>cali.py\<close>, lines 83 to 112: a loop over six indicators, then one over three.\<close>

definition z_columns_cali :: "frame \<Rightarrow> frame" where
  "z_columns_cali df =
     fold (add_z [''Gini_Index''])
       [''High_School_Grad_Pct'', ''Upward_Mobility'', ''Gini_Index'']
       (fold (add_z [''Unemployment_Rate'', ''No_Health_Insurance_Pct'', ''Median_Gross_Rent''])
          [''Median_Household_Income'', ''Bachelors_Degree_Pct'', ''Unemployment_Rate'',
           ''No_Health_Insurance_Pct'', ''Median_Gross_Rent'', ''Broadband_Pct''] df)"

section \<open>The composite score\<close>

definition series_mul :: "series \<Rightarrow> real \<Rightarrow> series" where
  "series_mul xs w = map (\<lambda>x. fmul x w) xs"

definition series_add :: "series \<Rightarrow> series \<Rightarrow> series" where
  "series_add xs ys = map2 fadd xs ys"

text \<open>\<^verbatim>\<open>df[c]\<close> raises \<^verbatim>\<open>KeyError\<close> for a column the frame does not have.\<close>

definition get_num :: "frame \<Rightarrow> string \<Rightarrow> error + series" where
  "get_num df c = (case num_cols df c of None \<Rightarrow> Inl (KeyError c) | Some xs \<Rightarrow> Inr xs)"

fun get_nums :: "frame \<Rightarrow> string list \<Rightarrow> error + series list" where
  "get_nums df [] = Inr []"
| "get_nums df (c # cs) =
     (case get_num df c of
        Inl e \<Rightarrow> Inl e
      | Inr xs \<Rightarrow> (case get_nums df cs of Inl e \<Rightarrow> Inl e | Inr xss \<Rightarrow> Inr (xs # xss)))"

text \<open>The sum \<^verbatim>\<open>z1 * w1 + z2 * w2 + ...\<close>, added from the left as Python does.\<close>

definition weighted_sum :: "series list \<Rightarrow> real list \<Rightarrow> series" where
  "weighted_sum zs ws =
     (case map2 series_mul zs ws of [] \<Rightarrow> [] | t # ts \<Rightarrow> foldl series_add t ts)"

text \<open>
  \<^verbatim>\<open>df["UOI_custom"] = ...\<close>: the nine \<^verbatim>\<open>Z_\<close> columns are read in the order of the
  indicators, so the first one that is absent raises.
\<close>

definition uoi_custom :: "real list \<Rightarrow> frame \<Rightarrow> error + frame" where
  "uoi_custom w df =
     (case get_nums df (map (\<lambda>c. ''Z_'' @ c) indicator_cols) of
        Inl e \<Rightarrow> Inl e
      | Inr zs \<Rightarrow> Inr (set_num ''UOI_custom'' (weighted_sum zs w) df))"

section \<open>Row selection and the two scripts\<close>

text \<open>\<^verbatim>\<open>df[mask]\<close> keeps the rows whose mask is true, in every column.\<close>

definition select_rows :: "bool list \<Rightarrow> 'a list \<Rightarrow> 'a list" where
  "select_rows keep xs = map snd (filter fst (zip keep xs))"

definition exclude_alpine :: "frame \<Rightarrow> error + frame" where
  "exclude_alpine df =
     (case str_cols df ''fips'' of
        None \<Rightarrow> Inl (KeyError ''fips'')
      | Some f \<Rightarrow>
          (let keep = map (\<lambda>x. x \<noteq> ''06003'') f in
           Inr (df\<lparr>str_cols := map_option (select_rows keep) \<circ> str_cols df,
                   num_cols := map_option (select_rows keep) \<circ> num_cols df\<rparr>)))"

text \<open>
  \<^verbatim>\<open>app_ca.py\<close> from the loaded table to the table that is plotted, for a raw weight
  list \<open>w\<close>: identifiers, weights, \<^verbatim>\<open>Z_\<close> columns, score, exclusion of Alpine County.
\<close>

definition app_ca_weights :: "feature list \<Rightarrow> real list \<Rightarrow> frame \<Rightarrow> error + frame" where
  "app_ca_weights feats w df =
     (case ensure_fips_app (california feats) df of
        Inl e \<Rightarrow> Inl e
      | Inr df1 \<Rightarrow>
         (case normalize_weights w of
            Inl e \<Rightarrow> Inl e
          | Inr w' \<Rightarrow>
             (case uoi_custom w' (z_columns_app df1) of
                Inl e \<Rightarrow> Inl e
              | Inr df2 \<Rightarrow> exclude_alpine df2)))"

definition app_ca :: "feature list \<Rightarrow> string \<Rightarrow> (nat \<Rightarrow> real) \<Rightarrow> frame \<Rightarrow> error + frame" where
  "app_ca feats preset sliders df = app_ca_weights feats (preset_weights preset sliders) df"

text \<open>\<^verbatim>\<open>cali.py\<close> likewise; it keeps every row.\<close>

definition cali_weights :: "feature list \<Rightarrow> real list \<Rightarrow> frame \<Rightarrow> error + frame" where
  "cali_weights feats w df =
     (case ensure_fips_cali (california feats) df of
        Inl e \<Rightarrow> Inl e
      | Inr df1 \<Rightarrow>
         (case normalize_weights w of
            Inl e \<Rightarrow> Inl e
          | Inr w' \<Rightarrow> uoi_custom w' (z_columns_cali df1)))"

definition cali :: "feature list \<Rightarrow> string \<Rightarrow> (nat \<Rightarrow> real) \<Rightarrow> frame \<Rightarrow> error + frame" where
  "cali feats preset sliders df = cali_weights feats (preset_weights preset sliders) df"

section \<open>The specification's population statistics\<close>

text \<open>
  The standard deviation as the specification words it, with the count as the
  denominator; it is compared with \<open>series_std\<close> below.
\<close>

definition population_std :: "series \<Rightarrow> real option" where
  "population_std xs =
     (let ys = dropna xs in
      if ys = [] then None
      else Some (sqrt (sumsq_dev ys / real (length ys))))"

text \<open>
  The weight resolution as the specification words it: it fails with
  \<^verbatim>\<open>InvalidWeightsError\<close> when the weights sum to 0 or less, when one of them is negative
  and when there are not exactly 9 of them, and divides every weight by the sum
  otherwise. It is compared with \<open>normalize_weights\<close> below.
\<close>

datatype spec_error = InvalidWeightsError

definition resolveWeights_spec :: "real list \<Rightarrow> spec_error + real list" where
  "resolveWeights_spec w =
     (if sum_list w \<le> 0 \<or> (\<exists>x \<in> set w. x < 0) \<or> length w \<noteq> 9 then Inl InvalidWeightsError
      else Inr (map (\<lambda>wi. wi / sum_list w) w))"

section \<open>Binary64 arithmetic\<close>












section \<open>Reading a result, and a small table\<close>

text \<open>A column of the table a script produces; nothing when the script raised.\<close>

definition result_num :: "error + frame \<Rightarrow> string \<Rightarrow> series option" where
  "result_num r c = (case r of Inl e \<Rightarrow> None | Inr out \<Rightarrow> num_cols out c)"

definition result_str :: "error + frame \<Rightarrow> string \<Rightarrow> string list option" where
  "result_str r c = (case r of Inl e \<Rightarrow> None | Inr out \<Rightarrow> str_cols out c)"

text \<open>
  Three boundary features, one of them outside California, and a table of three
  counties whose middle name matches no feature; every indicator column is 0, 1, 2.
\<close>

definition example_counties :: "feature list" where
  "example_counties =
     [\<lparr>feat_id = Some ''06001'', NAME = ''Alameda'', STATEFP = ''06'', COUNTYFP = ''001''\<rparr>,
      \<lparr>feat_id = Some ''06003'', NAME = ''Alpine'', STATEFP = ''06'', COUNTYFP = ''003''\<rparr>,
      \<lparr>feat_id = Some ''48001'', NAME = ''Anderson'', STATEFP = ''48'', COUNTYFP = ''001''\<rparr>]"

definition example_table :: "frame" where
  "example_table =
     \<lparr>str_cols = [''County'' \<mapsto> [''Alameda'', ''Atlantis'', '' alpine '']],
      num_cols = map_of (map (\<lambda>c. (c, [Some 0, Some 1, Some 2])) indicator_cols)\<rparr>"


text \<open>The small table with a constant inequality index.\<close>

definition example_constant :: "frame" where
  "example_constant = set_num ''Gini_Index'' [Some 5, Some 5, Some 5] example_table"


definition example_two_records :: "frame" where
  "example_two_records =
     \<lparr>str_cols = [''fips'' \<mapsto> [''06001'', ''06005'']],
      num_cols = (map_of (map (\<lambda>c. (c, [Some 0, Some 1])) indicator_cols))
                   (''Median_Household_Income'' \<mapsto> [Some 100, Some 200],
                    ''Unemployment_Rate'' \<mapsto> [Some 5, Some 10])\<rparr>"



section \<open>Weights: properties\<close>

lemma sum_list_map_divide: "sum_list (map (\<lambda>wi. wi / t) w) = sum_list w / (t::real)"
  by (induction w) (simp_all add: add_divide_distrib)

lemma normalize_weights_ok:
  "length w = 9 \<Longrightarrow> sum_list w \<noteq> 0 \<Longrightarrow>
   normalize_weights w = Inr (map (\<lambda>wi. wi / sum_list w) w)"
  by (simp add: normalize_weights_def Let_def)

lemma normalize_weights_zero:
  "w \<noteq> [] \<Longrightarrow> sum_list w = 0 \<Longrightarrow> normalize_weights w = Inl ZeroDivisionError"
  by (simp add: normalize_weights_def Let_def)

lemma normalize_weights_length:
  "length w \<noteq> 9 \<Longrightarrow> \<exists>e. normalize_weights w = Inl e"
  by (simp add: normalize_weights_def Let_def)

lemma normalize_weights_sum:
  "normalize_weights w = Inr w' \<Longrightarrow> sum_list w' = 1"
  by (cases "w = []")
     (auto simp: normalize_weights_def Let_def sum_list_map_divide split: if_splits)

lemma normalize_weights_Inr_length:
  "normalize_weights w = Inr w' \<Longrightarrow> length w' = 9"
  by (auto simp: normalize_weights_def Let_def split: if_splits)

lemma app_ca_weights_rejected:
  "normalize_weights w = Inl e \<Longrightarrow> \<exists>e'. app_ca_weights feats w df = Inl e'"
  by (simp add: app_ca_weights_def split: sum.splits)

lemma cali_weights_rejected:
  "normalize_weights w = Inl e \<Longrightarrow> \<exists>e'. cali_weights feats w df = Inl e'"
  by (simp add: cali_weights_def split: sum.splits)

lemma preset_weights_length: "length (preset_weights preset sliders) = 9"
  by (simp add: preset_weights_def)

lemma preset_Even: "sum_list (preset_weights ''Even'' sliders) = 1"
  by (simp add: preset_weights_def sum_list_replicate)

lemma preset_Income: "sum_list (preset_weights ''Income-heavy'' sliders) = 1"
  by (simp add: preset_weights_def)

lemma preset_Education: "sum_list (preset_weights ''Education-heavy'' sliders) = 1"
  by (simp add: preset_weights_def)

lemma preset_Equity: "sum_list (preset_weights ''Equity-focused'' sliders) = 1"
  by (simp add: preset_weights_def)

lemma preset_Stability: "sum_list (preset_weights ''Stability-focused'' sliders) = 1"
  by (simp add: preset_weights_def)

lemma preset_weights_named_sum:
  assumes "preset \<in> set named_presets"
  shows "sum_list (preset_weights preset sliders) = 1"
proof -
  from assms consider "preset = ''Even''" | "preset = ''Income-heavy''"
    | "preset = ''Education-heavy''" | "preset = ''Equity-focused''"
    | "preset = ''Stability-focused''"
    unfolding named_presets_def by fastforce
  then show ?thesis
    by cases
      (simp_all only: preset_Even preset_Income preset_Education preset_Equity preset_Stability)
qed

lemma preset_custom:
  "preset \<notin> set named_presets \<Longrightarrow> preset_weights preset sliders = map sliders [0..<9]"
  by (simp add: named_presets_def preset_weights_def)

lemma preset_named_pos:
  assumes "preset \<in> set named_presets"
  shows "\<forall>x \<in> set (preset_weights preset sliders). 0 < x"
proof -
  from assms consider "preset = ''Even''" | "preset = ''Income-heavy''"
    | "preset = ''Education-heavy''" | "preset = ''Equity-focused''"
    | "preset = ''Stability-focused''"
    unfolding named_presets_def by fastforce
  then show ?thesis
    by cases (simp_all add: preset_weights_def)
qed

lemma preset_weights_nonneg:
  assumes "\<forall>i<9. 0 \<le> sliders i \<and> sliders i \<le> 1"
  shows "\<forall>x \<in> set (preset_weights preset sliders). 0 \<le> x"
proof (cases "preset \<in> set named_presets")
  case True
  then show ?thesis using preset_named_pos [of preset sliders] by (simp add: less_imp_le)
next
  case False
  then show ?thesis using assms by (auto simp: preset_custom)
qed

lemma sliders_sum_zero:
  assumes "\<forall>i<9. 0 \<le> sliders i \<and> sliders i \<le> (1::real)"
  shows "sum_list (map sliders [0..<9]) \<le> 0 \<longleftrightarrow> (\<forall>i<9. sliders i = 0)"
proof -
  have nn: "\<forall>x \<in> set (map sliders [0..<9]). 0 \<le> x" using assms by auto
  then have "0 \<le> sum_list (map sliders [0..<9])" by (intro sum_list_nonneg) auto
  then have "sum_list (map sliders [0..<9]) \<le> 0 \<longleftrightarrow> sum_list (map sliders [0..<9]) = 0"
    by linarith
  also have "\<dots> \<longleftrightarrow> (\<forall>x \<in> set (map sliders [0..<9]). x = 0)"
    using nn by (intro sum_list_nonneg_eq_0_iff) auto
  also have "\<dots> \<longleftrightarrow> (\<forall>i<9. sliders i = 0)" by auto
  finally show ?thesis .
qed

lemma resolveWeights_spec_Inl:
  "resolveWeights_spec w = Inl InvalidWeightsError \<longleftrightarrow>
     sum_list w \<le> 0 \<or> (\<exists>x \<in> set w. x < 0) \<or> length w \<noteq> 9"
  by (simp add: resolveWeights_spec_def)

lemma resolveWeights_spec_Inr:
  "resolveWeights_spec w = Inr v \<longleftrightarrow>
     0 < sum_list w \<and> (\<forall>x \<in> set w. 0 \<le> x) \<and> length w = 9 \<and>
     v = map (\<lambda>wi. wi / sum_list w) w"
  by (auto simp: resolveWeights_spec_def not_le not_less)

lemma preset_rejected_iff:
  assumes "\<forall>i<9. 0 \<le> sliders i \<and> sliders i \<le> 1"
  shows "resolveWeights_spec (preset_weights preset sliders) = Inl InvalidWeightsError \<longleftrightarrow>
           preset \<notin> set named_presets \<and> (\<forall>i<9. sliders i = 0)"
proof (cases "preset \<in> set named_presets")
  case True
  have "\<not> (\<exists>x \<in> set (preset_weights preset sliders). x < 0)"
    using preset_weights_nonneg [OF assms, of preset] by (auto simp: not_less)
  then show ?thesis
    using True by (simp add: resolveWeights_spec_Inl preset_weights_named_sum preset_weights_length)
next
  case False
  have "\<not> (\<exists>x \<in> set (preset_weights preset sliders). x < 0)"
    using preset_weights_nonneg [OF assms, of preset] by (auto simp: not_less)
  then show ?thesis
    using False sliders_sum_zero [OF assms]
    by (simp add: resolveWeights_spec_Inl preset_weights_length preset_custom)
qed

lemma preset_rejected_error:
  assumes "\<forall>i<9. 0 \<le> sliders i \<and> sliders i \<le> 1"
    and "resolveWeights_spec (preset_weights preset sliders) = Inl InvalidWeightsError"
  shows "normalize_weights (preset_weights preset sliders) = Inl ZeroDivisionError"
proof -
  have c: "preset \<notin> set named_presets" and z: "\<forall>i<9. sliders i = 0"
    using assms(2) unfolding preset_rejected_iff [OF assms(1)] by simp_all
  have "sum_list (map sliders [0..<9]) \<le> 0" using z sliders_sum_zero [OF assms(1)] by simp
  moreover have "0 \<le> sum_list (map sliders [0..<9])"
    using assms(1) by (intro sum_list_nonneg) auto
  ultimately have "sum_list (preset_weights preset sliders) = 0"
    using c by (simp add: preset_custom)
  moreover have "preset_weights preset sliders \<noteq> []"
    using preset_weights_length [of preset sliders] by auto
  ultimately show ?thesis by (rule normalize_weights_zero [rotated])
qed

lemma app_ca_weights_error:
  "ensure_fips_app (california feats) df = Inr df1 \<Longrightarrow> normalize_weights w = Inl e \<Longrightarrow>
   app_ca_weights feats w df = Inl e"
  by (simp add: app_ca_weights_def)

lemma cali_weights_error:
  "ensure_fips_cali (california feats) df = Inr df1 \<Longrightarrow> normalize_weights w = Inl e \<Longrightarrow>
   cali_weights feats w df = Inl e"
  by (simp add: cali_weights_def)

text \<open>
  C5: for each of the five named presets, and for the nine slider values of a custom
  choice when their sum is positive, the normalisation succeeds and the nine normalised
  weights sum to 1 (exactly, in exact arithmetic, hence within \<open>10\<^sup>-\<^sup>9\<close>).
\<close>

theorem C5_normalized_weights_sum:
  assumes "preset \<in> set named_presets \<or> 0 < sum_list (map sliders [0..<9])"
  shows "\<exists>w. normalize_weights (preset_weights preset sliders) = Inr w \<and> length w = 9 \<and>
             \<bar>sum_list w - 1\<bar> \<le> 1 / 10 ^ 9"
proof -
  let ?w = "preset_weights preset sliders"
  have "sum_list ?w \<noteq> 0"
  proof (cases "preset \<in> set named_presets")
    case True
    then show ?thesis by (simp add: preset_weights_named_sum)
  next
    case False
    with assms have "0 < sum_list (map sliders [0..<9])" by simp
    moreover from False have "?w = map sliders [0..<9]"
      by (simp add: named_presets_def preset_weights_def)
    ultimately show ?thesis by simp
  qed
  then have eq: "normalize_weights ?w = Inr (map (\<lambda>wi. wi / sum_list ?w) ?w)"
    by (simp add: normalize_weights_ok preset_weights_length)
  from normalize_weights_sum [OF eq] have "sum_list (map (\<lambda>wi. wi / sum_list ?w) ?w) = 1" .
  with eq show ?thesis by (simp add: preset_weights_length)
qed

text \<open>
  Witness of C5: the preset \<^verbatim>\<open>Income-heavy\<close>, and a custom choice with every slider
  at 1.
\<close>

theorem C5_normalized_weights_sum_witness:
  "(\<exists>w. normalize_weights (preset_weights ''Income-heavy'' (\<lambda>i. 0)) = Inr w \<and> length w = 9 \<and>
        \<bar>sum_list w - 1\<bar> \<le> 1 / 10 ^ 9) \<and>
   0 < sum_list (map (\<lambda>i. 1 :: real) [0..<9]) \<and>
   (\<exists>w. normalize_weights (preset_weights ''Custom'' (\<lambda>i. 1)) = Inr w \<and> length w = 9 \<and>
        \<bar>sum_list w - 1\<bar> \<le> 1 / 10 ^ 9)"
proof -
  have h: "0 < sum_list (map (\<lambda>i. 1 :: real) [0..<9])"
    by (simp add: sum_list_triv)
  show ?thesis
    using h C5_normalized_weights_sum [of "''Income-heavy''" "\<lambda>i. 0"]
      C5_normalized_weights_sum [of "''Custom''" "\<lambda>i. 1"]
    by (simp add: named_presets_def)
qed

section \<open>Identifiers: properties\<close>

lemma zfill_unsigned:
  "\<not> signed x \<Longrightarrow> zfill n x = replicate (n - length x) (CHR ''0'') @ x"
  by (cases x) (auto simp: zfill_def signed_def)

lemma zfill_signed:
  "signed x \<Longrightarrow> zfill n x = hd x # replicate (n - length x) (CHR ''0'') @ tl x"
  by (cases x) (auto simp: zfill_def signed_def)

lemma length_zfill: "length (zfill n x) = max n (length x)"
  by (cases x) (auto simp: zfill_def)

lemma zfill_long: "n \<le> length x \<Longrightarrow> zfill n x = x"
  by (simp add: zfill_def)

lemma state_prefix_repair:
  "\<not> startswith y ''06'' \<Longrightarrow> state_prefix y = ''06'' @ drop (length y - 3) y"
  by (simp add: state_prefix_def)

text \<open>
  C8, as the code has it. An identifier shorter than 5 characters is padded with zeros
  to 5 characters, on the left, or after its first character when that is a sign; an
  identifier of 5 or more characters is left as it is. If the padded identifier starts
  with \<^verbatim>\<open>06\<close> it is the result; otherwise the result is \<^verbatim>\<open>06\<close> followed by the last 3
  characters of the padded identifier, 5 characters in all. For an identifier of at most
  5 characters that replaces the first 2 characters of the padded identifier and keeps
  its last 3; of a longer identifier only the last 3 characters are kept. The identifier
  \<^verbatim>\<open>001\<close> becomes \<^verbatim>\<open>06001\<close>.
\<close>

theorem C8_normalize_fips:
  "(\<not> signed x \<longrightarrow> zfill 5 x = replicate (5 - length x) (CHR ''0'') @ x) \<and>
   (signed x \<longrightarrow> zfill 5 x = hd x # replicate (5 - length x) (CHR ''0'') @ tl x) \<and>
   length (zfill 5 x) = max 5 (length x) \<and>
   (5 \<le> length x \<longrightarrow> zfill 5 x = x) \<and>
   (startswith (zfill 5 x) ''06'' \<longrightarrow> normalize_fips x = zfill 5 x) \<and>
   (\<not> startswith (zfill 5 x) ''06'' \<longrightarrow>
      normalize_fips x = ''06'' @ drop (length (zfill 5 x) - 3) (zfill 5 x) \<and>
      length (normalize_fips x) = 5) \<and>
   (length x \<le> 5 \<and> \<not> startswith (zfill 5 x) ''06'' \<longrightarrow>
      normalize_fips x = ''06'' @ drop 2 (zfill 5 x) \<and>
      drop 2 (normalize_fips x) = drop 2 (zfill 5 x)) \<and>
   (5 < length x \<and> \<not> startswith x ''06'' \<longrightarrow>
      normalize_fips x = ''06'' @ drop (length x - 3) x) \<and>
   normalize_fips ''001'' = ''06001''"
proof (intro conjI impI)
  show "\<not> signed x \<Longrightarrow> zfill 5 x = replicate (5 - length x) (CHR ''0'') @ x"
    by (rule zfill_unsigned)
  show "signed x \<Longrightarrow> zfill 5 x = hd x # replicate (5 - length x) (CHR ''0'') @ tl x"
    by (rule zfill_signed)
  show l: "length (zfill 5 x) = max 5 (length x)" by (rule length_zfill)
  show "5 \<le> length x \<Longrightarrow> zfill 5 x = x" by (rule zfill_long)
  show "startswith (zfill 5 x) ''06'' \<Longrightarrow> normalize_fips x = zfill 5 x"
    by (simp add: normalize_fips_def state_prefix_def)
  show r: "\<not> startswith (zfill 5 x) ''06'' \<Longrightarrow>
      normalize_fips x = ''06'' @ drop (length (zfill 5 x) - 3) (zfill 5 x)"
    unfolding normalize_fips_def by (rule state_prefix_repair)
  show "\<not> startswith (zfill 5 x) ''06'' \<Longrightarrow> length (normalize_fips x) = 5"
    using r l by simp
  show "length x \<le> 5 \<and> \<not> startswith (zfill 5 x) ''06'' \<Longrightarrow>
      normalize_fips x = ''06'' @ drop 2 (zfill 5 x)"
    using r l by simp
  then show "length x \<le> 5 \<and> \<not> startswith (zfill 5 x) ''06'' \<Longrightarrow>
      drop 2 (normalize_fips x) = drop 2 (zfill 5 x)"
    by simp
  show "5 < length x \<and> \<not> startswith x ''06'' \<Longrightarrow>
      normalize_fips x = ''06'' @ drop (length x - 3) x"
    using r by (simp add: zfill_long)
  show "normalize_fips ''001'' = ''06001''"
    by (simp add: normalize_fips_def state_prefix_def zfill_def startswith_def numeral_2_eq_2)
qed

text \<open>
  Witness of C8: the identifier \<^verbatim>\<open>001\<close> is padded to \<^verbatim>\<open>00001\<close> and repaired to
  \<^verbatim>\<open>06001\<close>; the identifier \<^verbatim>\<open>0600123\<close> stays as it is.
\<close>

theorem C8_normalize_fips_witness:
  "\<not> signed ''001'' \<and> zfill 5 ''001'' = ''00001'' \<and>
   \<not> startswith (zfill 5 ''001'') ''06'' \<and> normalize_fips ''001'' = ''06001'' \<and>
   startswith (zfill 5 ''0600123'') ''06'' \<and> normalize_fips ''0600123'' = ''0600123''"
  using C8_normalize_fips [of "''001''"] C8_normalize_fips [of "''0600123''"]
  by (simp add: signed_def startswith_def zfill_def numeral_2_eq_2)

text \<open>
  C8 as stated fails for an identifier of more than 5 characters: it is not padded to
  5 characters, and the repair keeps only its last 3 characters instead of replacing its
  first 2. It also fails for an identifier that starts with a sign: the zeros are
  inserted after the sign, not on the left.
\<close>

theorem C8_long_identifier:
  "length (zfill 5 ''123456'') \<noteq> 5 \<and>
   \<not> startswith (zfill 5 ''123456'') ''06'' \<and>
   normalize_fips ''123456'' = ''06456'' \<and>
   ''06'' @ drop 2 (zfill 5 ''123456'') = ''063456'' \<and>
   zfill 5 ''-12'' = ''-0012'' \<and>
   replicate (5 - length ''-12'') (CHR ''0'') @ ''-12'' = ''00-12'' \<and>
   normalize_fips ''-12'' = ''06012''"
  by (simp add: normalize_fips_def state_prefix_def zfill_def startswith_def numeral_2_eq_2)

section \<open>Standardisation: properties\<close>

lemma z012: "zscore [Some 0, Some 1, Some 2] = [Some (-1), Some 0, Some 1]"
  by (simp add: zscore_def series_mean_def series_std_def mean_list_def sumsq_dev_def fdiv_def fsub_def)

lemma nz012: "neg_zscore [Some 0, Some 1, Some 2] = [Some 1, Some 0, Some (-1)]"
  by (simp add: neg_zscore_def z012 fneg_def)

lemma add_z_cong: "(col \<in> set negs) = (col \<in> set negs') \<Longrightarrow> add_z negs col = add_z negs' col"
  unfolding add_z_def fun_eq_iff by (simp split: option.split)

lemma z_columns_cali_eq: "z_columns_cali df = z_columns_app df"
proof -
  let ?n3 = "[''Unemployment_Rate'', ''No_Health_Insurance_Pct'', ''Median_Gross_Rent'']"
  have a: "add_z ?n3 ''Median_Household_Income'' = add_z negative_cols ''Median_Household_Income''"
    "add_z ?n3 ''Bachelors_Degree_Pct'' = add_z negative_cols ''Bachelors_Degree_Pct''"
    "add_z ?n3 ''Unemployment_Rate'' = add_z negative_cols ''Unemployment_Rate''"
    "add_z ?n3 ''No_Health_Insurance_Pct'' = add_z negative_cols ''No_Health_Insurance_Pct''"
    "add_z ?n3 ''Median_Gross_Rent'' = add_z negative_cols ''Median_Gross_Rent''"
    "add_z ?n3 ''Broadband_Pct'' = add_z negative_cols ''Broadband_Pct''"
    "add_z [''Gini_Index''] ''High_School_Grad_Pct'' = add_z negative_cols ''High_School_Grad_Pct''"
    "add_z [''Gini_Index''] ''Upward_Mobility'' = add_z negative_cols ''Upward_Mobility''"
    "add_z [''Gini_Index''] ''Gini_Index'' = add_z negative_cols ''Gini_Index''"
    by (rule add_z_cong, simp add: negative_cols_def)+
  show ?thesis
    unfolding z_columns_cali_def z_columns_app_def indicator_cols_def fold_simps o_apply a ..
qed

lemma add_z_num_cols:
  "num_cols (add_z negs col df) c =
     (case num_cols df col of
        None \<Rightarrow> num_cols df c
      | Some xs \<Rightarrow>
          if c = ''Z_'' @ col then Some (if col \<in> set negs then neg_zscore xs else zscore xs)
          else num_cols df c)"
  by (simp add: add_z_def set_num_def split: option.split)

lemma add_z_str_cols: "str_cols (add_z negs col df) = str_cols df"
  by (simp add: add_z_def set_num_def split: option.split)

lemma fold_add_z_str_cols: "str_cols (fold (add_z negs) cols df) = str_cols df"
  by (induction cols arbitrary: df) (simp_all add: add_z_str_cols)

lemma fold_add_z_other:
  "\<forall>b \<in> set cols. c \<noteq> ''Z_'' @ b \<Longrightarrow> num_cols (fold (add_z negs) cols df) c = num_cols df c"
  by (induction cols arbitrary: df) (simp_all add: add_z_num_cols split: option.split)


lemma fold_add_z_present:
  assumes "col \<in> set cols" and "\<forall>b \<in> set cols. col \<noteq> ''Z_'' @ b"
    and "num_cols df col = Some xs"
  shows "num_cols (fold (add_z negs) cols df) (''Z_'' @ col) =
           Some (if col \<in> set negs then neg_zscore xs else zscore xs)"
  using assms
proof (induction cols arbitrary: df)
  case Nil
  then show ?case by simp
next
  case (Cons a cols)
  let ?df = "add_z negs a df"
  have raw: "num_cols ?df col = Some xs"
    using Cons.prems by (simp add: add_z_num_cols split: option.split)
  show ?case
  proof (cases "col \<in> set cols")
    case True
    then show ?thesis using Cons.IH [of ?df] Cons.prems raw by simp
  next
    case False
    with Cons.prems have a: "a = col" by simp
    have "\<forall>b \<in> set cols. ''Z_'' @ col \<noteq> ''Z_'' @ b" using False by auto
    then have "num_cols (fold (add_z negs) cols ?df) (''Z_'' @ col) = num_cols ?df (''Z_'' @ col)"
      by (rule fold_add_z_other)
    also have "\<dots> = Some (if col \<in> set negs then neg_zscore xs else zscore xs)"
      using Cons.prems(3) by (simp add: a add_z_num_cols)
    finally show ?thesis by simp
  qed
qed

lemma indicator_not_Z: "a \<in> set indicator_cols \<Longrightarrow> a \<noteq> ''Z_'' @ b"
  by (auto simp: indicator_cols_def)

lemma z_columns_app_Z:
  "col \<in> set indicator_cols \<Longrightarrow> num_cols df col = Some xs \<Longrightarrow>
   num_cols (z_columns_app df) (''Z_'' @ col) =
     Some (if col \<in> set negative_cols then neg_zscore xs else zscore xs)"
  unfolding z_columns_app_def
  by (rule fold_add_z_present) (blast dest: indicator_not_Z)+


lemma z_columns_app_other:
  "\<forall>b \<in> set indicator_cols. c \<noteq> ''Z_'' @ b \<Longrightarrow> num_cols (z_columns_app df) c = num_cols df c"
  unfolding z_columns_app_def by (rule fold_add_z_other)

lemma z_columns_app_str: "str_cols (z_columns_app df) = str_cols df"
  unfolding z_columns_app_def by (rule fold_add_z_str_cols)

subsection \<open>Mean and deviation of a standardised column\<close>

lemma dropna_map_option: "dropna (map (map_option f) xs) = map f (dropna xs)"
  by (induction xs rule: dropna.induct) simp_all

lemma length_dropna_le: "length (dropna xs) \<le> length xs"
  by (induction xs rule: dropna.induct) simp_all

lemma sum_list_shift: "sum_list (map (\<lambda>y. y - m) ys) = sum_list ys - real (length ys) * m"
  by (induction ys) (simp_all add: algebra_simps)

lemma sum_dev_zero: "ys \<noteq> [] \<Longrightarrow> sum_list (map (\<lambda>y. y - mean_list ys) ys) = 0"
  by (simp add: sum_list_shift mean_list_def)

lemma sumsq_dev_nonneg: "0 \<le> sumsq_dev ys"
  unfolding sumsq_dev_def by (rule sum_list_nonneg) auto

lemma mean_standardized:
  assumes "ys \<noteq> []"
  shows "mean_list (map (\<lambda>y. (y - mean_list ys) / s) ys) = 0"
proof -
  have "sum_list (map (\<lambda>y. (y - mean_list ys) / s) ys) =
        sum_list (map (\<lambda>y. y - mean_list ys) ys) / s"
    using sum_list_map_divide [of s "map (\<lambda>y. y - mean_list ys) ys"] by (simp add: o_def)
  then have "sum_list (map (\<lambda>y. (y - mean_list ys) / s) ys) = 0"
    using assms by (simp add: sum_dev_zero)
  then show ?thesis
    by (simp add: mean_list_def [of "map (\<lambda>y. (y - mean_list ys) / s) ys"])
qed

lemma sumsq_standardized:
  assumes "ys \<noteq> []"
  shows "sumsq_dev (map (\<lambda>y. (y - mean_list ys) / s) ys) = sumsq_dev ys / s\<^sup>2"
proof -
  let ?zs = "map (\<lambda>y. (y - mean_list ys) / s) ys"
  have "sumsq_dev ?zs = sum_list (map (\<lambda>z. z\<^sup>2) ?zs)"
    unfolding sumsq_dev_def mean_standardized [OF assms] by simp
  also have "\<dots> = sum_list (map (\<lambda>y. (y - mean_list ys)\<^sup>2 / s\<^sup>2) ys)"
    by (simp add: o_def power_divide)
  also have "\<dots> = sumsq_dev ys / s\<^sup>2"
    using sum_list_map_divide [of "s\<^sup>2" "map (\<lambda>y. (y - mean_list ys)\<^sup>2) ys"]
    by (simp add: o_def sumsq_dev_def)
  finally show ?thesis .
qed

lemma series_std_SomeD:
  assumes "series_std xs = Some s"
  shows "2 \<le> length (dropna xs)"
    and "s = sqrt (sumsq_dev (dropna xs) / real (length (dropna xs) - 1))"
    and "series_mean xs = Some (mean_list (dropna xs))"
  using assms by (auto simp: series_std_def series_mean_def Let_def split: if_splits)

lemma zscore_eq:
  assumes "series_std xs = Some s" and "s \<noteq> 0"
  shows "zscore xs = map (map_option (\<lambda>x. (x - mean_list (dropna xs)) / s)) xs"
  unfolding zscore_def series_std_SomeD(3) [OF assms(1)] assms(1)
  using assms(2) by (auto simp: fdiv_def fsub_def split: option.split)

lemma neg_zscore_eq:
  assumes "series_std xs = Some s" and "s \<noteq> 0"
  shows "neg_zscore xs = map (map_option (\<lambda>x. (x - mean_list (dropna xs)) / (- s))) xs"
  unfolding neg_zscore_def zscore_eq [OF assms]
  by (simp add: fneg_def option.map_comp o_def)

lemma standardized_stats:
  assumes "series_std xs = Some s" and "s \<noteq> 0" and "t = s \<or> t = - s"
  defines "zs \<equiv> map (map_option (\<lambda>x. (x - mean_list (dropna xs)) / t)) xs"
  shows "series_mean zs = Some 0" and "series_std zs = Some 1"
proof -
  let ?ys = "dropna xs"
  let ?n = "length ?ys"
  have n: "2 \<le> ?n" and s: "s = sqrt (sumsq_dev ?ys / real (?n - 1))"
    using series_std_SomeD [OF assms(1)] by simp_all
  then have ne: "?ys \<noteq> []" by auto
  have d: "dropna zs = map (\<lambda>y. (y - mean_list ?ys) / t) ?ys"
    by (simp add: zs_def dropna_map_option)
  show "series_mean zs = Some 0"
    using ne by (simp add: series_mean_def d mean_standardized)
  have t2: "t\<^sup>2 = s\<^sup>2" using assms(3) by auto
  have q: "sumsq_dev ?ys / real (?n - 1) = s\<^sup>2"
    unfolding s using sumsq_dev_nonneg [of ?ys] by simp
  have "sumsq_dev ?ys / s\<^sup>2 / real (?n - 1) = sumsq_dev ?ys / real (?n - 1) / s\<^sup>2"
    by (simp add: mult.commute)
  also have "\<dots> = 1" unfolding q using assms(2) by simp
  finally have one: "sumsq_dev ?ys / s\<^sup>2 / real (?n - 1) = 1" .
  have len: "length (dropna zs) = ?n" by (simp add: d)
  have sq: "sumsq_dev (dropna zs) = sumsq_dev ?ys / s\<^sup>2"
    unfolding d sumsq_standardized [OF ne] t2 ..
  have r: "sumsq_dev (dropna zs) / real (length (dropna zs) - 1) = 1"
    by (simp only: sq len one)
  have e: "series_std zs =
      Some (sqrt (sumsq_dev (dropna zs) / real (length (dropna zs) - 1)))"
    using n by (simp add: series_std_def len)
  show "series_std zs = Some 1" by (simp only: e r real_sqrt_one)
qed

lemma example_table_num:
  "c \<in> set indicator_cols \<Longrightarrow> num_cols example_table c = Some [Some 0, Some 1, Some 2]"
  by (auto simp: example_table_def indicator_cols_def)

lemma std012: "series_std [Some 0, Some 1, Some 2] = Some 1"
  by (simp add: series_std_def mean_list_def sumsq_dev_def)

lemma sumsq_dev_pos:
  assumes "a \<in> set ys" and "b \<in> set ys" and "a \<noteq> b"
  shows "0 < sumsq_dev ys"
proof (rule ccontr)
  assume "\<not> 0 < sumsq_dev ys"
  then have "sumsq_dev ys = 0" using sumsq_dev_nonneg [of ys] by linarith
  then have "\<forall>d \<in> set (map (\<lambda>y. (y - mean_list ys)\<^sup>2) ys). d = 0"
    unfolding sumsq_dev_def by (subst (asm) sum_list_nonneg_eq_0_iff) auto
  then have e: "\<forall>y \<in> set ys. y = mean_list ys" by simp
  have "a = mean_list ys" using e assms(1) by (rule bspec)
  moreover have "b = mean_list ys" using e assms(2) by (rule bspec)
  ultimately show False using assms(3) by simp
qed

lemma length_ge_2:
  assumes "a \<in> set ys" and "b \<in> set ys" and "a \<noteq> b"
  shows "2 \<le> length ys"
proof (cases ys)
  case Nil
  then show ?thesis using assms by simp
next
  case (Cons y ys')
  then show ?thesis using assms by (cases ys') auto
qed

lemma series_std_pos:
  assumes "a \<in> set (dropna xs)" and "b \<in> set (dropna xs)" and "a \<noteq> b"
  shows "\<exists>s. series_std xs = Some s \<and> 0 < s"
proof -
  have n: "2 \<le> length (dropna xs)" using assms by (rule length_ge_2)
  have "0 < sumsq_dev (dropna xs)" using assms by (rule sumsq_dev_pos)
  then have p: "0 < sqrt (sumsq_dev (dropna xs) / real (length (dropna xs) - 1))"
    using n by simp
  have "series_std xs = Some (sqrt (sumsq_dev (dropna xs) / real (length (dropna xs) - 1)))"
    using n by (simp add: series_std_def Let_def)
  with p show ?thesis by blast
qed

lemma population_std_standardized:
  assumes "series_std xs = Some s" and "s \<noteq> 0" and "t = s \<or> t = - s"
  defines "zs \<equiv> map (map_option (\<lambda>x. (x - mean_list (dropna xs)) / t)) xs"
  shows "population_std zs =
           Some (sqrt (real (length (dropna xs) - 1) / real (length (dropna xs))))"
proof -
  let ?ys = "dropna xs"
  let ?n = "length ?ys"
  have n: "2 \<le> ?n" and s: "s = sqrt (sumsq_dev ?ys / real (?n - 1))"
    using series_std_SomeD [OF assms(1)] by simp_all
  then have ne: "?ys \<noteq> []" by auto
  have d: "dropna zs = map (\<lambda>y. (y - mean_list ?ys) / t) ?ys"
    by (simp add: zs_def dropna_map_option)
  have t2: "t\<^sup>2 = s\<^sup>2" using assms(3) by auto
  have q: "sumsq_dev ?ys / real (?n - 1) = s\<^sup>2"
    unfolding s using sumsq_dev_nonneg [of ?ys] by simp
  have n1: "real (?n - 1) \<noteq> 0" using n by simp
  have "sumsq_dev ?ys = s\<^sup>2 * real (?n - 1)"
    using q n1 by (simp add: field_simps)
  then have sq: "sumsq_dev (dropna zs) = real (?n - 1)"
    unfolding d sumsq_standardized [OF ne] t2 using assms(2) by simp
  have len: "length (dropna zs) = ?n" by (simp add: d)
  have "dropna zs \<noteq> []" using ne by (simp add: d)
  then have "population_std zs = Some (sqrt (sumsq_dev (dropna zs) / real (length (dropna zs))))"
    by (simp add: population_std_def Let_def)
  then show ?thesis by (simp only: sq len)
qed

text \<open>
  C1, as the code has it. For an indicator column that the table has, both scripts
  store in the \<^verbatim>\<open>Z_\<close> column the quotient of \<open>x - mean\<close> by \<open>std\<close> for every cell \<open>x\<close>,
  negated for the four negative indicators, where \<open>mean\<close> is the mean of the present
  cells and \<open>std\<close> is pandas' \<^verbatim>\<open>Series.std()\<close>, the sample standard deviation: the squared
  deviations are divided by the count minus one, not by the count, and the deviation is
  NaN with fewer than two present cells. In exact arithmetic, when the present cells are
  not all equal, the stored column has mean 0 and sample standard deviation 1, and its
  population standard deviation is \<open>sqrt ((n - 1) / n)\<close> for \<open>n\<close> present cells.
\<close>

theorem C1_sample_standardization:
  assumes "col \<in> set indicator_cols" and "num_cols df col = Some xs"
  shows "\<exists>zs. num_cols (z_columns_app df) (''Z_'' @ col) = Some zs \<and>
           num_cols (z_columns_cali df) (''Z_'' @ col) = Some zs \<and>
           zs = map (\<lambda>x. (if col \<in> set negative_cols then fneg else (\<lambda>v. v))
                            (fdiv (fsub x (series_mean xs)) (series_std xs))) xs \<and>
           series_mean xs =
             (if dropna xs = [] then None
              else Some (sum_list (dropna xs) / real (length (dropna xs)))) \<and>
           series_std xs =
             (if length (dropna xs) \<le> 1 then None
              else Some (sqrt (sum_list (map (\<lambda>y. (y - sum_list (dropna xs) / real (length (dropna xs)))\<^sup>2)
                                          (dropna xs)) /
                               real (length (dropna xs) - 1)))) \<and>
           ((\<exists>a \<in> set (dropna xs). \<exists>b \<in> set (dropna xs). a \<noteq> b) \<longrightarrow>
              (\<exists>m s. series_mean xs = Some m \<and> series_std xs = Some s \<and> 0 < s \<and>
                 zs = map (map_option (\<lambda>x. if col \<in> set negative_cols then - ((x - m) / s)
                                              else (x - m) / s)) xs \<and>
                 series_mean zs = Some 0 \<and> series_std zs = Some 1 \<and>
                 population_std zs =
                   Some (sqrt (real (length (dropna xs) - 1) / real (length (dropna xs))))))"
proof -
  let ?m = "mean_list (dropna xs)"
  let ?zs = "if col \<in> set negative_cols then neg_zscore xs else zscore xs"
  have app: "num_cols (z_columns_app df) (''Z_'' @ col) = Some ?zs"
    using assms(1,2) by (rule z_columns_app_Z)
  have form: "?zs = map (\<lambda>x. (if col \<in> set negative_cols then fneg else (\<lambda>v. v))
                            (fdiv (fsub x (series_mean xs)) (series_std xs))) xs"
    by (simp add: neg_zscore_def zscore_def)
  have mean: "series_mean xs =
             (if dropna xs = [] then None
              else Some (sum_list (dropna xs) / real (length (dropna xs))))"
    by (simp add: series_mean_def mean_list_def Let_def)
  have std: "series_std xs =
             (if length (dropna xs) \<le> 1 then None
              else Some (sqrt (sum_list (map (\<lambda>y. (y - sum_list (dropna xs) / real (length (dropna xs)))\<^sup>2)
                                          (dropna xs)) /
                               real (length (dropna xs) - 1))))"
    by (simp add: series_std_def sumsq_dev_def mean_list_def Let_def)
  have exact: "\<exists>m s. series_mean xs = Some m \<and> series_std xs = Some s \<and> 0 < s \<and>
                 ?zs = map (map_option (\<lambda>x. if col \<in> set negative_cols then - ((x - m) / s)
                                              else (x - m) / s)) xs \<and>
                 series_mean ?zs = Some 0 \<and> series_std ?zs = Some 1 \<and>
                 population_std ?zs =
                   Some (sqrt (real (length (dropna xs) - 1) / real (length (dropna xs))))"
    if ne: "\<exists>a \<in> set (dropna xs). \<exists>b \<in> set (dropna xs). a \<noteq> b"
  proof -
    obtain s where s: "series_std xs = Some s" and pos: "0 < s"
      using ne series_std_pos by blast
    have s0: "s \<noteq> 0" using pos by simp
    have m: "series_mean xs = Some ?m" using series_std_SomeD(3) [OF s] .
    have shape: "?zs = map (map_option (\<lambda>x. if col \<in> set negative_cols then - ((x - ?m) / s)
                                        else (x - ?m) / s)) xs"
      by (simp add: zscore_eq [OF s s0] neg_zscore_eq [OF s s0])
    have stats: "series_mean ?zs = Some 0 \<and> series_std ?zs = Some 1"
      using standardized_stats [OF s s0, of s] standardized_stats [OF s s0, of "- s"]
      by (simp add: zscore_eq [OF s s0] neg_zscore_eq [OF s s0])
    have pop: "population_std ?zs =
                   Some (sqrt (real (length (dropna xs) - 1) / real (length (dropna xs))))"
      using population_std_standardized [OF s s0, of s]
        population_std_standardized [OF s s0, of "- s"]
      by (simp add: zscore_eq [OF s s0] neg_zscore_eq [OF s s0])
    show ?thesis
    proof (intro exI conjI)
      show "series_mean xs = Some ?m" by (rule m)
      show "series_std xs = Some s" by (rule s)
      show "0 < s" by (rule pos)
      show "?zs = map (map_option (\<lambda>x. if col \<in> set negative_cols then - ((x - ?m) / s)
                                        else (x - ?m) / s)) xs" by (rule shape)
      show "series_mean ?zs = Some 0" using stats by simp
      show "series_std ?zs = Some 1" using stats by simp
      show "population_std ?zs =
                   Some (sqrt (real (length (dropna xs) - 1) / real (length (dropna xs))))"
        by (rule pop)
    qed
  qed
  show ?thesis
  proof (rule exI [where x = ?zs], intro conjI)
    show "num_cols (z_columns_app df) (''Z_'' @ col) = Some ?zs" by (rule app)
    show "num_cols (z_columns_cali df) (''Z_'' @ col) = Some ?zs"
      by (simp only: z_columns_cali_eq app)
    show "?zs = map (\<lambda>x. (if col \<in> set negative_cols then fneg else (\<lambda>v. v))
                            (fdiv (fsub x (series_mean xs)) (series_std xs))) xs" by (rule form)
    show "series_mean xs =
             (if dropna xs = [] then None
              else Some (sum_list (dropna xs) / real (length (dropna xs))))" by (rule mean)
    show "series_std xs =
             (if length (dropna xs) \<le> 1 then None
              else Some (sqrt (sum_list (map (\<lambda>y. (y - sum_list (dropna xs) / real (length (dropna xs)))\<^sup>2)
                                          (dropna xs)) /
                               real (length (dropna xs) - 1))))" by (rule std)
    show "(\<exists>a \<in> set (dropna xs). \<exists>b \<in> set (dropna xs). a \<noteq> b) \<longrightarrow>
            (\<exists>m s. series_mean xs = Some m \<and> series_std xs = Some s \<and> 0 < s \<and>
                 ?zs = map (map_option (\<lambda>x. if col \<in> set negative_cols then - ((x - m) / s)
                                              else (x - m) / s)) xs \<and>
                 series_mean ?zs = Some 0 \<and> series_std ?zs = Some 1 \<and>
                 population_std ?zs =
                   Some (sqrt (real (length (dropna xs) - 1) / real (length (dropna xs)))))"
      using exact by (rule impI)
  qed
qed

text \<open>Witness of C1: the income column 0, 1, 2 of the small table.\<close>

theorem C1_sample_standardization_witness:
  "''Median_Household_Income'' \<in> set indicator_cols \<and>
   num_cols example_table ''Median_Household_Income'' = Some [Some 0, Some 1, Some 2] \<and>
   series_mean [Some 0, Some 1, Some 2] = Some 1 \<and>
   series_std [Some 0, Some 1, Some 2] = Some 1 \<and>
   num_cols (z_columns_app example_table) ''Z_Median_Household_Income'' =
     Some [Some (- 1), Some 0, Some 1] \<and>
   num_cols (z_columns_cali example_table) ''Z_Median_Household_Income'' =
     Some [Some (- 1), Some 0, Some 1] \<and>
   series_mean [Some (- 1), Some 0, Some 1] = Some 0 \<and>
   series_std [Some (- 1), Some 0, Some 1] = Some 1 \<and>
   population_std [Some (- 1), Some 0, Some 1] = Some (sqrt (2 / 3))"
proof -
  have a: "''Median_Household_Income'' \<in> set indicator_cols" by (simp add: indicator_cols_def)
  have n: "''Median_Household_Income'' \<notin> set negative_cols" by (simp add: negative_cols_def)
  have d: "\<exists>a \<in> set (dropna [Some (0::real), Some 1, Some 2]).
             \<exists>b \<in> set (dropna [Some 0, Some 1, Some 2]). a \<noteq> b" by auto
  have m: "series_mean [Some 0, Some 1, Some 2] = Some 1"
    by (simp add: series_mean_def mean_list_def)
  from C1_sample_standardization [OF a example_table_num [OF a]] d
  obtain zs where "num_cols (z_columns_app example_table) (''Z_'' @ ''Median_Household_Income'') = Some zs"
    and "num_cols (z_columns_cali example_table) (''Z_'' @ ''Median_Household_Income'') = Some zs"
    and "zs = map (\<lambda>x. (if ''Median_Household_Income'' \<in> set negative_cols then fneg else (\<lambda>v. v))
                            (fdiv (fsub x (series_mean [Some 0, Some 1, Some 2]))
                               (series_std [Some 0, Some 1, Some 2]))) [Some 0, Some 1, Some 2]"
    and "series_mean zs = Some 0" and "series_std zs = Some 1"
    and "population_std zs =
           Some (sqrt (real (length (dropna [Some (0::real), Some 1, Some 2]) - 1) /
                       real (length (dropna [Some (0::real), Some 1, Some 2]))))"
    by blast
  then show ?thesis
    using a n by (simp add: example_table_num std012 m fdiv_def fsub_def)
qed

text \<open>
  C1 as stated fails: on the column 0, 1, 2 the code divides by the sample deviation 1,
  not by the population deviation \<open>sqrt (2 / 3)\<close>, and the population deviation of the
  standardised column is \<open>sqrt (2 / 3)\<close>, not 1.
\<close>

theorem C1_population_std_differs:
  "series_std [Some 0, Some 1, Some 2] = Some 1 \<and>
   population_std [Some 0, Some 1, Some 2] = Some (sqrt (2 / 3)) \<and>
   num_cols (z_columns_app example_table) ''Z_Median_Household_Income'' =
     Some [Some (- 1), Some 0, Some 1] \<and>
   population_std [Some (- 1), Some 0, Some 1] = Some (sqrt (2 / 3)) \<and>
   population_std [Some (- 1), Some 0, Some 1] \<noteq> Some 1"
proof -
  have a: "''Median_Household_Income'' \<in> set indicator_cols" by (simp add: indicator_cols_def)
  have n: "''Median_Household_Income'' \<notin> set negative_cols" by (simp add: negative_cols_def)
  have z: "num_cols (z_columns_app example_table) ''Z_Median_Household_Income'' =
     Some [Some (- 1), Some 0, Some 1]"
    using z_columns_app_Z [OF a example_table_num [OF a]] n by (simp add: z012)
  have p1: "population_std [Some 0, Some 1, Some 2] = Some (sqrt (2 / 3))"
    by (simp add: population_std_def mean_list_def sumsq_dev_def)
  have p2: "population_std [Some (- 1), Some 0, Some 1] = Some (sqrt (2 / 3))"
    by (simp add: population_std_def mean_list_def sumsq_dev_def)
  show ?thesis by (simp add: std012 z p1 p2)
qed

section \<open>The composite score: properties\<close>

lemma length_series_add: "length (series_add xs ys) = min (length xs) (length ys)"
  by (simp add: series_add_def)

lemma length_series_mul: "length (series_mul xs w) = length xs"
  by (simp add: series_mul_def)

lemma foldl_series_add_length:
  "length t = n \<Longrightarrow> \<forall>u \<in> set ts. length u = n \<Longrightarrow> length (foldl series_add t ts) = n"
  by (induction ts arbitrary: t) (simp_all add: length_series_add)

lemma foldl_series_add_nth:
  "length t = n \<Longrightarrow> \<forall>u \<in> set ts. length u = n \<Longrightarrow> i < n \<Longrightarrow>
   foldl series_add t ts ! i = foldl fadd (t ! i) (map (\<lambda>u. u ! i) ts)"
proof (induction ts arbitrary: t)
  case Nil
  then show ?case by simp
next
  case (Cons u ts)
  have "length (series_add t u) = n" using Cons.prems by (simp add: length_series_add)
  moreover have "series_add t u ! i = fadd (t ! i) (u ! i)"
    using Cons.prems by (simp add: series_add_def)
  ultimately show ?case using Cons.IH [of "series_add t u"] Cons.prems by simp
qed

lemma fadd_simps:
  "fadd None b = None" "fadd a None = None" "fadd (Some x) (Some y) = Some (x + y)"
  by (simp_all add: fadd_def split: option.split)

lemma foldl_fadd_None: "foldl fadd None bs = None"
  by (induction bs) (simp_all add: fadd_simps)

lemma foldl_fadd:
  "foldl fadd (Some a) bs =
     (if None \<in> set bs then None else Some (a + sum_list (map the bs)))"
proof (induction bs arbitrary: a)
  case Nil
  then show ?case by simp
next
  case (Cons b bs)
  show ?case
  proof (cases b)
    case None
    then show ?thesis by (simp add: fadd_simps foldl_fadd_None)
  next
    case (Some y)
    then show ?thesis using Cons.IH [of "a + y"] by (auto simp: fadd_simps)
  qed
qed

text \<open>One row of the weighted sum: NaN as soon as one term is NaN.\<close>

lemma weighted_sum_row:
  assumes "zs \<noteq> []" and "length ws = length zs" and "\<forall>z \<in> set zs. length z = n" and "i < n"
  shows "length (weighted_sum zs ws) = n"
    and "weighted_sum zs ws ! i =
           (if \<exists>z \<in> set zs. z ! i = None then None
            else Some (sum_list (map2 (\<lambda>z wk. the (z ! i) * wk) zs ws)))"
proof -
  obtain z zs' where zs: "zs = z # zs'" using assms(1) by (cases zs) auto
  obtain w ws' where ws: "ws = w # ws'" using assms(2) zs by (cases ws) auto
  let ?ts = "map2 series_mul zs' ws'"
  have ws_def: "weighted_sum zs ws = foldl series_add (series_mul z w) ?ts"
    by (simp add: weighted_sum_def zs ws)
  have lt: "length (series_mul z w) = n" using assms(3) zs by (simp add: length_series_mul)
  have lts: "\<forall>u \<in> set ?ts. length u = n"
    using assms(3) zs by (auto simp: length_series_mul dest!: set_zip_leftD)
  show "length (weighted_sum zs ws) = n"
    unfolding ws_def using lt lts by (rule foldl_series_add_length)
  have len: "length zs' = length ws'" using assms(2) zs ws by simp
  have row: "weighted_sum zs ws ! i =
      foldl fadd (fmul (z ! i) w) (map2 (\<lambda>z wk. fmul (z ! i) wk) zs' ws')"
  proof -
    have m: "map (\<lambda>u. u ! i) ?ts = map2 (\<lambda>z wk. fmul (z ! i) wk) zs' ws'"
      using assms(3,4) zs
      by (auto simp: series_mul_def dest!: set_zip_leftD)
    have h: "series_mul z w ! i = fmul (z ! i) w"
      using assms(3,4) zs by (simp add: series_mul_def)
    show ?thesis
      unfolding ws_def foldl_series_add_nth [OF lt lts assms(4)] m h ..
  qed
  have none_iff: "None \<in> set (map2 (\<lambda>z wk. fmul (z ! i) wk) zs' ws') \<longleftrightarrow> (\<exists>z \<in> set zs'. z ! i = None)"
    using len
  proof (induction zs' ws' rule: list_induct2)
    case Nil
    then show ?case by simp
  next
    case (Cons a as b bs)
    then show ?case by (auto simp: fmul_def)
  qed
  have sum_eq: "\<forall>z \<in> set zs'. z ! i \<noteq> None \<Longrightarrow>
      sum_list (map the (map2 (\<lambda>z wk. fmul (z ! i) wk) zs' ws')) =
      sum_list (map2 (\<lambda>z wk. the (z ! i) * wk) zs' ws')"
    using len
  proof (induction zs' ws' rule: list_induct2)
    case Nil
    then show ?case by simp
  next
    case (Cons a as b bs)
    then show ?case by (auto simp: fmul_def)
  qed
  have ex: "(\<exists>u \<in> set zs. u ! i = None) \<longleftrightarrow> z ! i = None \<or> (\<exists>u \<in> set zs'. u ! i = None)"
    by (simp add: zs)
  have sm: "sum_list (map2 (\<lambda>z wk. the (z ! i) * wk) zs ws) =
      the (z ! i) * w + sum_list (map2 (\<lambda>z wk. the (z ! i) * wk) zs' ws')"
    by (simp add: zs ws)
  show "weighted_sum zs ws ! i =
           (if \<exists>z \<in> set zs. z ! i = None then None
            else Some (sum_list (map2 (\<lambda>z wk. the (z ! i) * wk) zs ws)))"
  proof (cases "z ! i")
    case None
    show ?thesis unfolding row ex sm by (simp add: None fmul_def foldl_fadd_None)
  next
    case (Some a)
    have f: "fmul (z ! i) w = Some (a * w)" by (simp add: Some fmul_def)
    show ?thesis
      unfolding row ex sm f foldl_fadd none_iff using sum_eq Some by auto
  qed
qed

lemma get_nums_eq:
  "get_nums df cs =
     (if \<forall>c \<in> set cs. num_cols df c \<noteq> None then Inr (map (\<lambda>c. the (num_cols df c)) cs)
      else Inl (KeyError (hd (filter (\<lambda>c. num_cols df c = None) cs))))"
  by (induction cs) (auto simp: get_num_def split: option.splits)

lemma get_nums_Inr:
  "get_nums df cs = Inr zs \<longleftrightarrow>
     (\<forall>c \<in> set cs. num_cols df c \<noteq> None) \<and> zs = map (\<lambda>c. the (num_cols df c)) cs"
  unfolding get_nums_eq by auto

lemma uoi_custom_eq:
  "uoi_custom w df =
     (if \<forall>c \<in> set indicator_cols. num_cols df (''Z_'' @ c) \<noteq> None
      then Inr (set_num ''UOI_custom''
             (weighted_sum (map (\<lambda>c. the (num_cols df (''Z_'' @ c))) indicator_cols) w) df)
      else Inl (KeyError (hd (filter (\<lambda>c. num_cols df c = None)
                                (map (\<lambda>c. ''Z_'' @ c) indicator_cols)))))"
proof -
  have e: "(@) ''Z_'' = (\<lambda>c. CHR ''Z'' # CHR ''_'' # c)" by (simp add: fun_eq_iff)
  show ?thesis unfolding uoi_custom_def get_nums_eq by (simp add: o_def e)
qed

lemma uoi_custom_Inr:
  "uoi_custom w df = Inr out \<longleftrightarrow>
     (\<forall>c \<in> set indicator_cols. num_cols df (''Z_'' @ c) \<noteq> None) \<and>
     out = set_num ''UOI_custom''
             (weighted_sum (map (\<lambda>c. the (num_cols df (''Z_'' @ c))) indicator_cols) w) df"
  unfolding uoi_custom_eq by auto

lemma length_zscore: "length (zscore xs) = length xs"
  by (simp add: zscore_def)

lemma length_neg_zscore: "length (neg_zscore xs) = length xs"
  by (simp add: neg_zscore_def zscore_def)

lemma add_z_wf: "wf_frame n df \<Longrightarrow> wf_frame n (add_z negs col df)"
  by (auto simp: wf_frame_def add_z_num_cols add_z_str_cols length_zscore length_neg_zscore
      split: option.splits if_splits)

lemma fold_add_z_wf: "wf_frame n df \<Longrightarrow> wf_frame n (fold (add_z negs) cols df)"
  by (induction cols arbitrary: df) (simp_all add: add_z_wf)

lemma z_columns_app_wf: "wf_frame n df \<Longrightarrow> wf_frame n (z_columns_app df)"
  unfolding z_columns_app_def by (rule fold_add_z_wf)

lemma sum_list_all_equal: "\<forall>y \<in> set ys. y = c \<Longrightarrow> sum_list ys = real (length ys) * c"
  by (induction ys) (simp_all add: algebra_simps)

lemma sumsq_dev_all_equal:
  assumes "\<forall>y \<in> set ys. y = c"
  shows "sumsq_dev ys = 0"
proof (cases "ys = []")
  case True
  then show ?thesis by (simp add: sumsq_dev_def)
next
  case False
  then have m: "mean_list ys = c"
    using sum_list_all_equal [OF assms] by (simp add: mean_list_def)
  have e: "map (\<lambda>y. (y - mean_list ys)\<^sup>2) ys = map (\<lambda>y. 0) ys"
    unfolding m using assms by (intro map_cong) auto
  show ?thesis unfolding sumsq_dev_def e by simp
qed

lemma fdiv_zero: "fdiv a None = None" "fdiv a (Some 0) = None"
  by (simp_all add: fdiv_def split: option.split)

lemma zscore_constant:
  assumes "\<forall>x \<in> set (dropna xs). \<forall>y \<in> set (dropna xs). x = y"
  shows "zscore xs = map (\<lambda>x. None) xs" and "neg_zscore xs = map (\<lambda>x. None) xs"
proof -
  have "series_std xs = None \<or> series_std xs = Some 0"
  proof (cases "dropna xs")
    case Nil
    then show ?thesis by (simp add: series_std_def)
  next
    case (Cons c ys)
    with assms have "\<forall>y \<in> set (dropna xs). y = c" by auto
    then have "sumsq_dev (dropna xs) = 0" by (rule sumsq_dev_all_equal)
    then show ?thesis by (simp add: series_std_def Let_def)
  qed
  then show z: "zscore xs = map (\<lambda>x. None) xs"
    by (auto simp: zscore_def fdiv_zero)
  show "neg_zscore xs = map (\<lambda>x. None) xs"
    by (simp add: neg_zscore_def z fneg_def)
qed

text \<open>
  The division never meets a nonzero deviation over a zero standard deviation: when the
  standard deviation is 0, every present cell equals the mean.
\<close>

lemma std_zero_deviation:
  assumes "series_std xs = Some 0" and "Some x \<in> set xs"
  shows "fsub (Some x) (series_mean xs) = Some 0"
proof -
  let ?ys = "dropna xs"
  have n: "2 \<le> length ?ys" and m: "series_mean xs = Some (mean_list ?ys)"
    and s: "0 = sqrt (sumsq_dev ?ys / real (length ?ys - 1))"
    using series_std_SomeD [OF assms(1)] by simp_all
  from s n have "sumsq_dev ?ys = 0" by simp
  then have "\<forall>d \<in> set (map (\<lambda>y. (y - mean_list ?ys)\<^sup>2) ?ys). d = 0"
    unfolding sumsq_dev_def by (subst (asm) sum_list_nonneg_eq_0_iff) auto
  moreover have "x \<in> set ?ys"
    using assms(2) by (induction xs rule: dropna.induct) auto
  ultimately have "x = mean_list ?ys" by auto
  then show ?thesis by (simp add: m fsub_def)
qed

text \<open>
  C2, as the code has it. In a table of \<open>n\<close> rows whose nine \<^verbatim>\<open>Z_\<close> columns exist, the
  score of row \<open>i\<close> is NaN as soon as one of its nine standardised values is NaN, and it
  is the weighted sum of the nine values when all of them are present.
\<close>

theorem C2_missing_value_propagates:
  assumes "wf_frame n df" and "length w = 9" and "uoi_custom w df = Inr out" and "i < n"
  shows "\<exists>zs u. get_nums df (map (\<lambda>c. ''Z_'' @ c) indicator_cols) = Inr zs \<and>
           num_cols out ''UOI_custom'' = Some u \<and> length u = n \<and>
           ((\<exists>z \<in> set zs. z ! i = None) \<longrightarrow> u ! i = None) \<and>
           ((\<forall>z \<in> set zs. z ! i \<noteq> None) \<longrightarrow>
              u ! i = Some (sum_list (map2 (\<lambda>z wk. the (z ! i) * wk) zs w)))"
proof -
  let ?zs = "map (\<lambda>c. the (num_cols df (''Z_'' @ c))) indicator_cols"
  let ?u = "weighted_sum ?zs w"
  have pres: "\<forall>c \<in> set indicator_cols. num_cols df (''Z_'' @ c) \<noteq> None"
    and out: "out = set_num ''UOI_custom'' ?u df"
    using assms(3) unfolding uoi_custom_Inr by simp_all
  have g: "get_nums df (map (\<lambda>c. ''Z_'' @ c) indicator_cols) = Inr ?zs"
    unfolding get_nums_Inr using pres by (simp add: o_def)
  have ne: "?zs \<noteq> []" by (simp add: indicator_cols_def)
  have lw: "length w = length ?zs" using assms(2) by (simp add: indicator_cols_def)
  have ln: "\<forall>z \<in> set ?zs. length z = n"
    using pres assms(1) by (auto simp: wf_frame_def)
  note row = weighted_sum_row [OF ne lw ln assms(4)]
  show ?thesis
  proof (intro exI conjI)
    show "get_nums df (map (\<lambda>c. ''Z_'' @ c) indicator_cols) = Inr ?zs" by (rule g)
    show "num_cols out ''UOI_custom'' = Some ?u" by (simp add: out set_num_def)
    show "length ?u = n" by (rule row(1))
    show "(\<exists>z \<in> set ?zs. z ! i = None) \<longrightarrow> ?u ! i = None" using row(2) by simp
    show "(\<forall>z \<in> set ?zs. z ! i \<noteq> None) \<longrightarrow>
              ?u ! i = Some (sum_list (map2 (\<lambda>z wk. the (z ! i) * wk) ?zs w))"
      using row(2) by simp
  qed
qed

section \<open>The two scripts: properties\<close>

lemma app_ca_weights_Inr:
  "app_ca_weights feats w df = Inr out \<longleftrightarrow>
     (\<exists>df1 w' df2. ensure_fips_app (california feats) df = Inr df1 \<and>
        normalize_weights w = Inr w' \<and> uoi_custom w' (z_columns_app df1) = Inr df2 \<and>
        exclude_alpine df2 = Inr out)"
  by (auto simp: app_ca_weights_def split: sum.splits)

lemma cali_weights_Inr:
  "cali_weights feats w df = Inr out \<longleftrightarrow>
     (\<exists>df1 w'. ensure_fips_cali (california feats) df = Inr df1 \<and>
        normalize_weights w = Inr w' \<and> uoi_custom w' (z_columns_app df1) = Inr out)"
  by (auto simp: cali_weights_def z_columns_cali_eq split: sum.splits)

lemma ensure_fips_app_Inr:
  "ensure_fips_app F df = Inr df1 \<Longrightarrow> \<exists>f. df1 = set_str ''fips'' f df"
  by (auto simp: ensure_fips_app_def split: option.splits)


lemma set_str_cols [simp]:
  "num_cols (set_str c xs df) = num_cols df"
  "str_cols (set_str c xs df) = (str_cols df)(c \<mapsto> xs)"
  by (simp_all add: set_str_def)

lemma set_num_cols [simp]:
  "str_cols (set_num c xs df) = str_cols df"
  "num_cols (set_num c xs df) = (num_cols df)(c \<mapsto> xs)"
  by (simp_all add: set_num_def)

lemma uoi_custom_cols:
  assumes "uoi_custom w df = Inr out"
  shows "str_cols out = str_cols df"
    and "c \<noteq> ''UOI_custom'' \<Longrightarrow> num_cols out c = num_cols df c"
  using assms unfolding uoi_custom_Inr by simp_all

lemma exclude_alpine_Inr:
  "exclude_alpine df = Inr out \<longleftrightarrow>
     (\<exists>f. str_cols df ''fips'' = Some f \<and>
          out = df\<lparr>str_cols := map_option (select_rows (map (\<lambda>x. x \<noteq> ''06003'') f)) \<circ> str_cols df,
                    num_cols := map_option (select_rows (map (\<lambda>x. x \<noteq> ''06003'') f)) \<circ> num_cols df\<rparr>)"
  by (auto simp: exclude_alpine_def Let_def split: option.splits)

lemma select_rows_self: "select_rows (map P xs) xs = filter P xs"
  by (induction xs) (simp_all add: select_rows_def)

text \<open>
  C9: two runs of a script on one table with two weight lists, when both succeed, give
  the same text columns and the same numeric columns except \<^verbatim>\<open>UOI_custom\<close>; in
  particular every \<^verbatim>\<open>Z_\<close> column is the same.
\<close>

theorem C9_standardization_ignores_weights:
  "(app_ca_weights feats w1 df = Inr a1 \<and> app_ca_weights feats w2 df = Inr a2 \<longrightarrow>
      str_cols a1 = str_cols a2 \<and>
      (\<forall>c. c \<noteq> ''UOI_custom'' \<longrightarrow> num_cols a1 c = num_cols a2 c) \<and>
      (\<forall>c. num_cols a1 (''Z_'' @ c) = num_cols a2 (''Z_'' @ c))) \<and>
   (cali_weights feats w1 df = Inr b1 \<and> cali_weights feats w2 df = Inr b2 \<longrightarrow>
      str_cols b1 = str_cols b2 \<and>
      (\<forall>c. c \<noteq> ''UOI_custom'' \<longrightarrow> num_cols b1 c = num_cols b2 c) \<and>
      (\<forall>c. num_cols b1 (''Z_'' @ c) = num_cols b2 (''Z_'' @ c)))"
proof (intro conjI impI)
  assume "app_ca_weights feats w1 df = Inr a1 \<and> app_ca_weights feats w2 df = Inr a2"
  then obtain df1 u1 u2 d1 d2 where f: "ensure_fips_app (california feats) df = Inr df1"
    and u1: "uoi_custom u1 (z_columns_app df1) = Inr d1" and e1: "exclude_alpine d1 = Inr a1"
    and u2: "uoi_custom u2 (z_columns_app df1) = Inr d2" and e2: "exclude_alpine d2 = Inr a2"
    unfolding app_ca_weights_Inr by auto
  have s: "str_cols d1 = str_cols d2"
    using uoi_custom_cols(1) [OF u1] uoi_custom_cols(1) [OF u2] by simp
  have n: "\<And>c. c \<noteq> ''UOI_custom'' \<Longrightarrow> num_cols d1 c = num_cols d2 c"
    using uoi_custom_cols(2) [OF u1] uoi_custom_cols(2) [OF u2] by simp
  show "str_cols a1 = str_cols a2"
    using e1 e2 s unfolding exclude_alpine_Inr by auto
  show sub: "\<forall>c. c \<noteq> ''UOI_custom'' \<longrightarrow> num_cols a1 c = num_cols a2 c"
    using e1 e2 s n unfolding exclude_alpine_Inr by auto
  show "\<forall>c. num_cols a1 (''Z_'' @ c) = num_cols a2 (''Z_'' @ c)"
    using sub by simp
next
  assume "cali_weights feats w1 df = Inr b1 \<and> cali_weights feats w2 df = Inr b2"
  then obtain df1 u1 u2 where f: "ensure_fips_cali (california feats) df = Inr df1"
    and u1: "uoi_custom u1 (z_columns_app df1) = Inr b1"
    and u2: "uoi_custom u2 (z_columns_app df1) = Inr b2"
    unfolding cali_weights_Inr by auto
  show "str_cols b1 = str_cols b2"
    using uoi_custom_cols(1) [OF u1] uoi_custom_cols(1) [OF u2] by simp
  show sub: "\<forall>c. c \<noteq> ''UOI_custom'' \<longrightarrow> num_cols b1 c = num_cols b2 c"
    using uoi_custom_cols(2) [OF u1] uoi_custom_cols(2) [OF u2] by simp
  show "\<forall>c. num_cols b1 (''Z_'' @ c) = num_cols b2 (''Z_'' @ c)"
    using sub by simp
qed

text \<open>
  C10: when \<^verbatim>\<open>app_ca.py\<close> succeeds, the output has no row whose identifier is
  \<^verbatim>\<open>06003\<close>, and its indicator, \<^verbatim>\<open>Z_\<close> and score columns are the rows with another
  identifier of the columns computed on the whole table: each \<^verbatim>\<open>Z_\<close> column is the
  standardisation of the full indicator column, the rows of Alpine County included,
  with these rows removed afterwards.
\<close>

theorem C10_alpine_removed_after_scoring:
  assumes "app_ca_weights feats w df = Inr out"
  shows "\<exists>df1 f. ensure_fips_app (california feats) df = Inr df1 \<and>
           str_cols df1 ''fips'' = Some f \<and>
           str_cols out ''fips'' = Some (filter (\<lambda>x. x \<noteq> ''06003'') f) \<and>
           ''06003'' \<notin> set (filter (\<lambda>x. x \<noteq> ''06003'') f) \<and>
           (\<forall>c \<in> set indicator_cols. \<forall>xs. num_cols df c = Some xs \<longrightarrow>
              num_cols out c = Some (select_rows (map (\<lambda>x. x \<noteq> ''06003'') f) xs) \<and>
              num_cols out (''Z_'' @ c) =
                Some (select_rows (map (\<lambda>x. x \<noteq> ''06003'') f)
                        (if c \<in> set negative_cols then neg_zscore xs else zscore xs))) \<and>
           (\<exists>u. uoi_custom (map (\<lambda>wi. wi / sum_list w) w) (z_columns_app df1) =
                  Inr (set_num ''UOI_custom'' u (z_columns_app df1)) \<and>
                num_cols out ''UOI_custom'' = Some (select_rows (map (\<lambda>x. x \<noteq> ''06003'') f) u))"
proof -
  obtain df1 w' d where f1: "ensure_fips_app (california feats) df = Inr df1"
    and nw: "normalize_weights w = Inr w'"
    and u: "uoi_custom w' (z_columns_app df1) = Inr d" and e: "exclude_alpine d = Inr out"
    using assms unfolding app_ca_weights_Inr by auto
  obtain f0 where df1: "df1 = set_str ''fips'' f0 df"
    using ensure_fips_app_Inr [OF f1] by auto
  have sd: "str_cols d = str_cols df1"
    using uoi_custom_cols(1) [OF u] by (simp add: z_columns_app_str)
  obtain f where f: "str_cols d ''fips'' = Some f"
    and out: "out = d\<lparr>str_cols := map_option (select_rows (map (\<lambda>x. x \<noteq> ''06003'') f)) \<circ> str_cols d,
                    num_cols := map_option (select_rows (map (\<lambda>x. x \<noteq> ''06003'') f)) \<circ> num_cols d\<rparr>"
    using e unfolding exclude_alpine_Inr by auto
  let ?keep = "map (\<lambda>x. x \<noteq> ''06003'') f"
  have w': "w' = map (\<lambda>wi. wi / sum_list w) w"
    using nw by (auto simp: normalize_weights_def Let_def split: if_splits)
  obtain uu where d: "d = set_num ''UOI_custom'' uu (z_columns_app df1)"
    using u unfolding uoi_custom_Inr by auto
  show ?thesis
  proof (intro exI conjI ballI allI impI)
    show "ensure_fips_app (california feats) df = Inr df1" by (rule f1)
    show "str_cols df1 ''fips'' = Some f" using f sd by simp
    show "str_cols out ''fips'' = Some (filter (\<lambda>x. x \<noteq> ''06003'') f)"
      by (simp add: out f select_rows_self)
    show "''06003'' \<notin> set (filter (\<lambda>x. x \<noteq> ''06003'') f)" by simp
    show "uoi_custom (map (\<lambda>wi. wi / sum_list w) w) (z_columns_app df1) =
                  Inr (set_num ''UOI_custom'' uu (z_columns_app df1))"
      using u d w' by simp
    show "num_cols out ''UOI_custom'' = Some (select_rows ?keep uu)"
      by (simp add: out d)
  next
    fix c xs
    assume c: "c \<in> set indicator_cols" and xs: "num_cols df c = Some xs"
    have c1: "c \<noteq> ''UOI_custom''" using c by (auto simp: indicator_cols_def)
    have raw1: "num_cols df1 c = Some xs" using xs by (simp add: df1)
    have "num_cols (z_columns_app df1) c = num_cols df1 c"
      by (rule z_columns_app_other) (use c in \<open>blast dest: indicator_not_Z\<close>)
    then have "num_cols d c = Some xs"
      using uoi_custom_cols(2) [OF u c1] raw1 by simp
    then show "num_cols out c = Some (select_rows ?keep xs)" by (simp add: out)
    have "num_cols d (''Z_'' @ c) = num_cols (z_columns_app df1) (''Z_'' @ c)"
      using uoi_custom_cols(2) [OF u, of "''Z_'' @ c"] by simp
    also have "\<dots> = Some (if c \<in> set negative_cols then neg_zscore xs else zscore xs)"
      using c raw1 by (rule z_columns_app_Z)
    finally show "num_cols out (''Z_'' @ c) =
                Some (select_rows ?keep (if c \<in> set negative_cols then neg_zscore xs else zscore xs))"
      by (simp add: out)
  qed
qed

section \<open>The scripts on the small table\<close>

lemma example_fips_cali:
  "ensure_fips_cali (california example_counties) example_table =
     Inr (set_str ''fips'' [''06001'', ''06one'', ''06003''] example_table)"
  by (simp add: ensure_fips_cali_def california_def example_counties_def example_table_def
      startswith_def state_prefix_def zfill_def astype_str_def upper_def upper_char_def
      strip_def isspace_def)

lemma example_fips_app:
  "ensure_fips_app (california example_counties) example_table =
     Inr (set_str ''fips'' [''06001'', ''06one'', ''06003''] example_table)"
  by (simp add: ensure_fips_app_def california_def example_counties_def example_table_def
      startswith_def state_prefix_def zfill_def astype_str_def upper_def upper_char_def
      strip_def isspace_def)

lemma even_weights:
  "normalize_weights [1, 1, 1, 1, 1, 1, 1, 1, 1] =
     Inr [1 / 9, 1 / 9, 1 / 9, 1 / 9, 1 / 9, 1 / 9, 1 / 9, 1 / 9, 1 / 9]"
  by (simp add: normalize_weights_def)

lemma income_weights:
  "normalize_weights [1, 0, 0, 0, 0, 0, 0, 0, 0] = Inr [1, 0, 0, 0, 0, 0, 0, 0, 0]"
  by (simp add: normalize_weights_def)


lemma example_Z:
  assumes "c \<in> set indicator_cols"
  shows "num_cols (z_columns_app (set_str ''fips'' f example_table)) (''Z_'' @ c) =
           Some (if c \<in> set negative_cols then [Some 1, Some 0, Some (- 1)]
                 else [Some (- 1), Some 0, Some 1])"
  using z_columns_app_Z [OF assms, of "set_str ''fips'' f example_table" "[Some 0, Some 1, Some 2]"]
    example_table_num [OF assms]
  by (simp add: z012 nz012)

lemma example_present:
  "c \<in> set indicator_cols \<Longrightarrow>
   num_cols (z_columns_app (set_str ''fips'' f example_table)) (''Z_'' @ c) \<noteq> None"
  by (simp only: example_Z) simp

lemma example_zs:
  "map (\<lambda>c. the (num_cols (z_columns_app (set_str ''fips'' f example_table)) (''Z_'' @ c)))
     indicator_cols =
   [[Some (- 1), Some 0, Some 1], [Some (- 1), Some 0, Some 1], [Some 1, Some 0, Some (- 1)],
    [Some 1, Some 0, Some (- 1)], [Some 1, Some 0, Some (- 1)], [Some (- 1), Some 0, Some 1],
    [Some (- 1), Some 0, Some 1], [Some (- 1), Some 0, Some 1], [Some 1, Some 0, Some (- 1)]]"
proof -
  have "map (\<lambda>c. the (num_cols (z_columns_app (set_str ''fips'' f example_table)) (''Z_'' @ c)))
     indicator_cols =
     map (\<lambda>c. if c \<in> set negative_cols then [Some 1, Some 0, Some (- 1)]
                 else [Some (- 1), Some 0, Some 1]) indicator_cols"
    by (rule map_cong) (simp_all only: example_Z option.sel)
  also have "\<dots> = [[Some (- 1), Some 0, Some 1], [Some (- 1), Some 0, Some 1], [Some 1, Some 0, Some (- 1)],
    [Some 1, Some 0, Some (- 1)], [Some 1, Some 0, Some (- 1)], [Some (- 1), Some 0, Some 1],
    [Some (- 1), Some 0, Some 1], [Some (- 1), Some 0, Some 1], [Some 1, Some 0, Some (- 1)]]"
    by (simp add: indicator_cols_def negative_cols_def)
  finally show ?thesis .
qed

lemma example_uoi:
  "uoi_custom [1 / 9, 1 / 9, 1 / 9, 1 / 9, 1 / 9, 1 / 9, 1 / 9, 1 / 9, 1 / 9]
     (z_columns_app (set_str ''fips'' f example_table)) =
   Inr (set_num ''UOI_custom'' [Some (- (1 / 9)), Some 0, Some (1 / 9)]
         (z_columns_app (set_str ''fips'' f example_table)))"
proof -
  have p: "\<forall>c \<in> set indicator_cols.
      num_cols (z_columns_app (set_str ''fips'' f example_table)) (''Z_'' @ c) \<noteq> None"
    using example_present by blast
  show ?thesis
    unfolding uoi_custom_eq example_zs using p
    by (simp add: weighted_sum_def series_mul_def series_add_def fmul_def fadd_simps)
qed

lemma example_uoi_income:
  "uoi_custom [1, 0, 0, 0, 0, 0, 0, 0, 0]
     (z_columns_app (set_str ''fips'' f example_table)) =
   Inr (set_num ''UOI_custom'' [Some (- 1), Some 0, Some 1]
         (z_columns_app (set_str ''fips'' f example_table)))"
proof -
  have p: "\<forall>c \<in> set indicator_cols.
      num_cols (z_columns_app (set_str ''fips'' f example_table)) (''Z_'' @ c) \<noteq> None"
    using example_present by blast
  show ?thesis
    unfolding uoi_custom_eq example_zs using p
    by (simp add: weighted_sum_def series_mul_def series_add_def fmul_def fadd_simps)
qed

lemma example_cali:
  "cali_weights example_counties [1, 1, 1, 1, 1, 1, 1, 1, 1] example_table =
     Inr (set_num ''UOI_custom'' [Some (- (1 / 9)), Some 0, Some (1 / 9)]
           (z_columns_app (set_str ''fips'' [''06001'', ''06one'', ''06003''] example_table)))"
  by (simp add: cali_weights_def example_fips_cali even_weights z_columns_cali_eq example_uoi)

lemma example_app_ca:
  "app_ca_weights example_counties [1, 1, 1, 1, 1, 1, 1, 1, 1] example_table =
     exclude_alpine (set_num ''UOI_custom'' [Some (- (1 / 9)), Some 0, Some (1 / 9)]
           (z_columns_app (set_str ''fips'' [''06001'', ''06one'', ''06003''] example_table)))"
  by (simp add: app_ca_weights_def example_fips_app even_weights example_uoi)

lemma example_app_ca_income:
  "app_ca_weights example_counties [1, 0, 0, 0, 0, 0, 0, 0, 0] example_table =
     exclude_alpine (set_num ''UOI_custom'' [Some (- 1), Some 0, Some 1]
           (z_columns_app (set_str ''fips'' [''06001'', ''06one'', ''06003''] example_table)))"
  by (simp add: app_ca_weights_def example_fips_app income_weights example_uoi_income)

lemma example_table_str:
  "str_cols example_table = [''County'' \<mapsto> [''Alameda'', ''Atlantis'', '' alpine '']]"
  by (simp add: example_table_def)

lemma example_cali_cols:
  "result_str (cali_weights example_counties [1, 1, 1, 1, 1, 1, 1, 1, 1] example_table) ''fips'' =
     Some [''06001'', ''06one'', ''06003'']"
  "result_str (cali_weights example_counties [1, 1, 1, 1, 1, 1, 1, 1, 1] example_table) ''County'' =
     Some [''Alameda'', ''Atlantis'', '' alpine '']"
  "result_num (cali_weights example_counties [1, 1, 1, 1, 1, 1, 1, 1, 1] example_table) ''UOI_custom'' =
     Some [Some (- (1 / 9)), Some 0, Some (1 / 9)]"
  unfolding example_cali
  by (simp_all add: result_str_def result_num_def z_columns_app_str example_table_str)

lemma example_app_ca_cols:
  "result_str (app_ca_weights example_counties [1, 1, 1, 1, 1, 1, 1, 1, 1] example_table) ''fips'' =
     Some [''06001'', ''06one'']"
  "result_str (app_ca_weights example_counties [1, 1, 1, 1, 1, 1, 1, 1, 1] example_table) ''County'' =
     Some [''Alameda'', ''Atlantis'']"
  "result_num (app_ca_weights example_counties [1, 1, 1, 1, 1, 1, 1, 1, 1] example_table) ''UOI_custom'' =
     Some [Some (- (1 / 9)), Some 0]"
  "result_num (app_ca_weights example_counties [1, 1, 1, 1, 1, 1, 1, 1, 1] example_table)
     ''Z_Median_Household_Income'' = Some [Some (- 1), Some 0]"
  unfolding example_app_ca
  using example_Z [of "''Median_Household_Income''" "[''06001'', ''06one'', ''06003'']"]
  by (simp_all add: result_str_def result_num_def z_columns_app_str
      example_table_str exclude_alpine_def select_rows_def indicator_cols_def negative_cols_def)

lemma zero_sliders_weights:
  "preset_weights ''Custom'' zero_sliders = [0, 0, 0, 0, 0, 0, 0, 0, 0]"
  by (simp add: preset_weights_def zero_sliders_def eval_nat_numeral)

lemma even_preset_weights:
  "normalize_weights (preset_weights ''Even'' sliders) =
     Inr [1 / 9, 1 / 9, 1 / 9, 1 / 9, 1 / 9, 1 / 9, 1 / 9, 1 / 9, 1 / 9]"
  by (simp add: preset_weights_def normalize_weights_def eval_nat_numeral)

lemma example_app_ca_even:
  "\<exists>out. app_ca example_counties ''Even'' sliders example_table = Inr out \<and>
         num_cols out ''UOI_custom'' = Some [Some (- (1 / 9)), Some 0]"
  by (simp add: app_ca_def app_ca_weights_def example_fips_app even_preset_weights example_uoi
      exclude_alpine_def Let_def example_table_str z_columns_app_str select_rows_def)

text \<open>
  C3, as the code has it. The weights that a script can receive are those of a preset
  or the nine slider values, each between 0 and 1: always nine entries, none negative.
  Among them the specification's resolution rejects exactly the custom choice with every
  slider at 0, and there the division of the first weight by the sum raises
  \<^verbatim>\<open>ZeroDivisionError\<close> before any standardisation or score: neither script produces a
  table, and when the identifier column could be built the error of the script is that
  \<^verbatim>\<open>ZeroDivisionError\<close>. All other weights are normalised as the specification says.
\<close>

theorem C3_weights_rejected:
  assumes "\<forall>i<9. 0 \<le> sliders i \<and> sliders i \<le> 1"
  shows "length (preset_weights preset sliders) = 9 \<and>
         (\<forall>x \<in> set (preset_weights preset sliders). 0 \<le> x) \<and>
         (resolveWeights_spec (preset_weights preset sliders) = Inl InvalidWeightsError \<longleftrightarrow>
            preset \<notin> set named_presets \<and> (\<forall>i<9. sliders i = 0)) \<and>
         (resolveWeights_spec (preset_weights preset sliders) = Inl InvalidWeightsError \<longrightarrow>
            normalize_weights (preset_weights preset sliders) = Inl ZeroDivisionError \<and>
            (\<forall>feats df.
               (\<exists>e. app_ca feats preset sliders df = Inl e) \<and>
               (\<exists>e. cali feats preset sliders df = Inl e) \<and>
               (\<forall>df1. ensure_fips_app (california feats) df = Inr df1 \<longrightarrow>
                  app_ca feats preset sliders df = Inl ZeroDivisionError) \<and>
               (\<forall>df1. ensure_fips_cali (california feats) df = Inr df1 \<longrightarrow>
                  cali feats preset sliders df = Inl ZeroDivisionError))) \<and>
         (\<forall>v. resolveWeights_spec (preset_weights preset sliders) = Inr v \<longrightarrow>
            normalize_weights (preset_weights preset sliders) = Inr v)"
proof (intro conjI impI allI)
  let ?w = "preset_weights preset sliders"
  show "length ?w = 9" by (rule preset_weights_length)
  show "\<forall>x \<in> set ?w. 0 \<le> x" using assms by (rule preset_weights_nonneg)
  show "resolveWeights_spec ?w = Inl InvalidWeightsError \<longleftrightarrow>
            preset \<notin> set named_presets \<and> (\<forall>i<9. sliders i = 0)"
    using assms by (rule preset_rejected_iff)
  {
    assume r: "resolveWeights_spec ?w = Inl InvalidWeightsError"
    show z: "normalize_weights ?w = Inl ZeroDivisionError"
      using assms r by (rule preset_rejected_error)
    fix feats df
    show "\<exists>e. app_ca feats preset sliders df = Inl e"
      unfolding app_ca_def using z by (rule app_ca_weights_rejected)
    show "\<exists>e. cali feats preset sliders df = Inl e"
      unfolding cali_def using z by (rule cali_weights_rejected)
    fix df1
    show "ensure_fips_app (california feats) df = Inr df1 \<Longrightarrow>
            app_ca feats preset sliders df = Inl ZeroDivisionError"
      by (simp add: app_ca_def app_ca_weights_error [OF _ z])
    show "ensure_fips_cali (california feats) df = Inr df1 \<Longrightarrow>
            cali feats preset sliders df = Inl ZeroDivisionError"
      by (simp add: cali_def cali_weights_error [OF _ z])
  }
  fix v
  assume "resolveWeights_spec ?w = Inr v"
  then have "0 < sum_list ?w" and "length ?w = 9" and "v = map (\<lambda>wi. wi / sum_list ?w) ?w"
    unfolding resolveWeights_spec_Inr by simp_all
  then show "normalize_weights ?w = Inr v"
    by (simp add: normalize_weights_ok)
qed

text \<open>
  Witness of C3: with every slider at 0 both scripts stop on the small table with
  \<^verbatim>\<open>ZeroDivisionError\<close>; with the preset \<^verbatim>\<open>Even\<close> the same table is scored.
\<close>

theorem C3_weights_rejected_witness:
  "resolveWeights_spec (preset_weights ''Custom'' zero_sliders) = Inl InvalidWeightsError \<and>
   normalize_weights (preset_weights ''Custom'' zero_sliders) = Inl ZeroDivisionError \<and>
   app_ca example_counties ''Custom'' zero_sliders example_table = Inl ZeroDivisionError \<and>
   cali example_counties ''Custom'' zero_sliders example_table = Inl ZeroDivisionError \<and>
   resolveWeights_spec (preset_weights ''Even'' zero_sliders) =
     Inr [1 / 9, 1 / 9, 1 / 9, 1 / 9, 1 / 9, 1 / 9, 1 / 9, 1 / 9, 1 / 9] \<and>
   normalize_weights (preset_weights ''Even'' zero_sliders) =
     Inr [1 / 9, 1 / 9, 1 / 9, 1 / 9, 1 / 9, 1 / 9, 1 / 9, 1 / 9, 1 / 9] \<and>
   (\<exists>out. app_ca example_counties ''Even'' zero_sliders example_table = Inr out \<and>
      num_cols out ''UOI_custom'' = Some [Some (- (1 / 9)), Some 0])"
proof -
  have r: "\<forall>i<9. 0 \<le> zero_sliders i \<and> zero_sliders i \<le> 1" by (simp add: zero_sliders_def)
  have c: "''Custom'' \<notin> set named_presets" by (simp add: named_presets_def)
  have z: "\<forall>i<9. zero_sliders i = 0" by (simp add: zero_sliders_def)
  have e: "resolveWeights_spec (preset_weights ''Even'' zero_sliders) =
     Inr [1 / 9, 1 / 9, 1 / 9, 1 / 9, 1 / 9, 1 / 9, 1 / 9, 1 / 9, 1 / 9]"
    by (simp add: preset_weights_def resolveWeights_spec_def eval_nat_numeral)
  note t = C3_weights_rejected [OF r, of "''Custom''"]
  note u = C3_weights_rejected [OF r, of "''Even''"]
  from t c z have s: "resolveWeights_spec (preset_weights ''Custom'' zero_sliders) = Inl InvalidWeightsError"
    by blast
  with t have n: "normalize_weights (preset_weights ''Custom'' zero_sliders) = Inl ZeroDivisionError"
    and a: "app_ca example_counties ''Custom'' zero_sliders example_table = Inl ZeroDivisionError"
    and b: "cali example_counties ''Custom'' zero_sliders example_table = Inl ZeroDivisionError"
    using example_fips_app example_fips_cali by blast+
  from u e have "normalize_weights (preset_weights ''Even'' zero_sliders) =
     Inr [1 / 9, 1 / 9, 1 / 9, 1 / 9, 1 / 9, 1 / 9, 1 / 9, 1 / 9, 1 / 9]"
    by blast
  then show ?thesis
    using s n a b e example_app_ca_even [of zero_sliders] by simp
qed

text \<open>
  C3 as stated fails: with every slider at 0, where the specification's resolution
  fails with \<^verbatim>\<open>InvalidWeightsError\<close>, the scripts fail with Python's
  \<^verbatim>\<open>ZeroDivisionError\<close>; the scripts have no \<^verbatim>\<open>InvalidWeightsError\<close>.
\<close>

theorem C3_zero_sliders_error:
  "preset_weights ''Custom'' zero_sliders = [0, 0, 0, 0, 0, 0, 0, 0, 0] \<and>
   resolveWeights_spec [0, 0, 0, 0, 0, 0, 0, 0, 0] = Inl InvalidWeightsError \<and>
   normalize_weights [0, 0, 0, 0, 0, 0, 0, 0, 0] = Inl ZeroDivisionError \<and>
   app_ca example_counties ''Custom'' zero_sliders example_table = Inl ZeroDivisionError \<and>
   cali example_counties ''Custom'' zero_sliders example_table = Inl ZeroDivisionError"
  by (simp add: app_ca_def cali_def zero_sliders_weights resolveWeights_spec_def
      normalize_weights_def app_ca_weights_def cali_weights_def example_fips_app
      example_fips_cali)

lemma example_constant_num:
  "c \<in> set indicator_cols \<Longrightarrow>
   num_cols example_constant c =
     Some (if c = ''Gini_Index'' then [Some 5, Some 5, Some 5] else [Some 0, Some 1, Some 2])"
  by (simp add: example_constant_def example_table_num)

lemma example_constant_str: "str_cols example_constant = str_cols example_table"
  by (simp add: example_constant_def)

lemma constant555:
  "zscore [Some 5, Some 5, Some 5] = [None, None, None]"
  "neg_zscore [Some 5, Some 5, Some 5] = [None, None, None]"
  using zscore_constant [of "[Some 5, Some 5, Some 5]"] by simp_all

lemma constant_Z:
  assumes "c \<in> set indicator_cols"
  shows "num_cols (z_columns_app (set_str ''fips'' f example_constant)) (''Z_'' @ c) =
           Some (if c = ''Gini_Index'' then [None, None, None]
                 else if c \<in> set negative_cols then [Some 1, Some 0, Some (- 1)]
                 else [Some (- 1), Some 0, Some 1])"
  using z_columns_app_Z [OF assms, of "set_str ''fips'' f example_constant"]
    example_constant_num [OF assms]
  by (simp add: z012 nz012 constant555 negative_cols_def)

lemma constant_present:
  "c \<in> set indicator_cols \<Longrightarrow>
   num_cols (z_columns_app (set_str ''fips'' f example_constant)) (''Z_'' @ c) \<noteq> None"
  by (simp only: constant_Z) simp

lemma constant_zs:
  "map (\<lambda>c. the (num_cols (z_columns_app (set_str ''fips'' f example_constant)) (''Z_'' @ c)))
     indicator_cols =
   [[Some (- 1), Some 0, Some 1], [Some (- 1), Some 0, Some 1], [Some 1, Some 0, Some (- 1)],
    [Some 1, Some 0, Some (- 1)], [Some 1, Some 0, Some (- 1)], [Some (- 1), Some 0, Some 1],
    [Some (- 1), Some 0, Some 1], [Some (- 1), Some 0, Some 1], [None, None, None]]"
proof -
  have "map (\<lambda>c. the (num_cols (z_columns_app (set_str ''fips'' f example_constant)) (''Z_'' @ c)))
     indicator_cols =
     map (\<lambda>c. if c = ''Gini_Index'' then [None, None, None]
                 else if c \<in> set negative_cols then [Some 1, Some 0, Some (- 1)]
                 else [Some (- 1), Some 0, Some 1]) indicator_cols"
    by (rule map_cong) (simp_all only: constant_Z option.sel)
  also have "\<dots> = [[Some (- 1), Some 0, Some 1], [Some (- 1), Some 0, Some 1], [Some 1, Some 0, Some (- 1)],
    [Some 1, Some 0, Some (- 1)], [Some 1, Some 0, Some (- 1)], [Some (- 1), Some 0, Some 1],
    [Some (- 1), Some 0, Some 1], [Some (- 1), Some 0, Some 1], [None, None, None]]"
    by (simp add: indicator_cols_def negative_cols_def)
  finally show ?thesis .
qed

lemma constant_uoi:
  "uoi_custom [1 / 9, 1 / 9, 1 / 9, 1 / 9, 1 / 9, 1 / 9, 1 / 9, 1 / 9, 1 / 9]
     (z_columns_app (set_str ''fips'' f example_constant)) =
   Inr (set_num ''UOI_custom'' [None, None, None]
         (z_columns_app (set_str ''fips'' f example_constant)))"
proof -
  have p: "\<forall>c \<in> set indicator_cols.
      num_cols (z_columns_app (set_str ''fips'' f example_constant)) (''Z_'' @ c) \<noteq> None"
    using constant_present by blast
  show ?thesis
    unfolding uoi_custom_eq constant_zs using p
    by (simp add: weighted_sum_def series_mul_def series_add_def fmul_def fadd_simps)
qed

lemma example_lookup:
  "map (state_prefix \<circ> zfill 5 \<circ> astype_str \<circ> fips_lookup (california example_counties))
     [''Alameda'', ''Atlantis'', '' alpine ''] = [''06001'', ''06one'', ''06003'']"
  by (simp add: california_def example_counties_def startswith_def state_prefix_def zfill_def
      astype_str_def upper_def upper_char_def strip_def isspace_def)

lemma constant_fips_cali:
  "ensure_fips_cali (california example_counties) example_constant =
     Inr (set_str ''fips'' [''06001'', ''06one'', ''06003''] example_constant)"
  by (simp add: ensure_fips_cali_def example_constant_str example_table_str example_lookup
      del: map_map list.map)

lemma constant_cali:
  "cali_weights example_counties [1, 1, 1, 1, 1, 1, 1, 1, 1] example_constant =
     Inr (set_num ''UOI_custom'' [None, None, None]
           (z_columns_app (set_str ''fips'' [''06001'', ''06one'', ''06003''] example_constant)))"
  by (simp add: cali_weights_def constant_fips_cali even_weights z_columns_cali_eq constant_uoi)

text \<open>
  C2 as stated fails: with a constant inequality index, its standardised value is NaN
  and the other eight are present, yet the score of every record is NaN, not the weighted
  sum of the eight.
\<close>

theorem C2_constant_indicator_score_missing:
  "result_num (cali_weights example_counties [1, 1, 1, 1, 1, 1, 1, 1, 1] example_constant)
     ''Z_Gini_Index'' = Some [None, None, None] \<and>
   result_num (cali_weights example_counties [1, 1, 1, 1, 1, 1, 1, 1, 1] example_constant)
     ''Z_Median_Household_Income'' = Some [Some (- 1), Some 0, Some 1] \<and>
   result_num (cali_weights example_counties [1, 1, 1, 1, 1, 1, 1, 1, 1] example_constant)
     ''UOI_custom'' = Some [None, None, None]"
  unfolding constant_cali
  using constant_Z [of "''Gini_Index''" "[''06001'', ''06one'', ''06003'']"]
    constant_Z [of "''Median_Household_Income''" "[''06001'', ''06one'', ''06003'']"]
  by (simp add: result_num_def indicator_cols_def negative_cols_def)

lemma wf_example_table: "wf_frame 3 (set_str ''fips'' [a, b, c] example_table)"
  by (auto simp: wf_frame_def example_table_def indicator_cols_def split: if_splits)

lemma wf_example_constant: "wf_frame 3 (set_str ''fips'' [a, b, c] example_constant)"
  using wf_example_table [of a b c]
  by (auto simp: wf_frame_def example_constant_def split: if_splits)

text \<open>
  Witness of C2: row 0 of the small table with a constant inequality index (one value is
  NaN, the score is NaN) and of the small table (all values present).
\<close>

theorem C2_missing_value_propagates_witness:
  "wf_frame 3 (z_columns_app (set_str ''fips'' [''06001'', ''06one'', ''06003''] example_constant)) \<and>
   uoi_custom [1 / 9, 1 / 9, 1 / 9, 1 / 9, 1 / 9, 1 / 9, 1 / 9, 1 / 9, 1 / 9]
     (z_columns_app (set_str ''fips'' [''06001'', ''06one'', ''06003''] example_constant)) =
   Inr (set_num ''UOI_custom'' [None, None, None]
         (z_columns_app (set_str ''fips'' [''06001'', ''06one'', ''06003''] example_constant))) \<and>
   num_cols (z_columns_app (set_str ''fips'' [''06001'', ''06one'', ''06003''] example_constant))
     ''Z_Gini_Index'' = Some [None, None, None] \<and>
   wf_frame 3 (z_columns_app (set_str ''fips'' [''06001'', ''06one'', ''06003''] example_table)) \<and>
   uoi_custom [1 / 9, 1 / 9, 1 / 9, 1 / 9, 1 / 9, 1 / 9, 1 / 9, 1 / 9, 1 / 9]
     (z_columns_app (set_str ''fips'' [''06001'', ''06one'', ''06003''] example_table)) =
   Inr (set_num ''UOI_custom'' [Some (- (1 / 9)), Some 0, Some (1 / 9)]
         (z_columns_app (set_str ''fips'' [''06001'', ''06one'', ''06003''] example_table)))"
proof -
  let ?f = "[''06001'', ''06one'', ''06003'']"
  let ?w = "[1 / 9, 1 / 9, 1 / 9, 1 / 9, 1 / 9, 1 / 9, 1 / 9, 1 / 9, 1 / 9] :: real list"
  have w1: "wf_frame 3 (z_columns_app (set_str ''fips'' ?f example_constant))"
    by (rule z_columns_app_wf) (rule wf_example_constant)
  have w2: "wf_frame 3 (z_columns_app (set_str ''fips'' ?f example_table))"
    by (rule z_columns_app_wf) (rule wf_example_table)
  have l: "length ?w = 9" by simp
  have i: "(0::nat) < 3" by simp
  note a = C2_missing_value_propagates [OF w1 l constant_uoi i]
  note b = C2_missing_value_propagates [OF w2 l example_uoi i]
  have g: "num_cols (z_columns_app (set_str ''fips'' ?f example_constant)) ''Z_Gini_Index'' =
      Some [None, None, None]"
    using constant_Z [of "''Gini_Index''" ?f] by (simp add: indicator_cols_def)
  from a b show ?thesis
    using w1 w2 g by (simp add: constant_uoi example_uoi)
qed

lemma example_uoi_any:
  "\<exists>u. uoi_custom w (z_columns_app (set_str ''fips'' f example_table)) =
         Inr (set_num ''UOI_custom'' u (z_columns_app (set_str ''fips'' f example_table)))"
  unfolding uoi_custom_eq using example_present by auto

lemma example_cali_income:
  "cali_weights example_counties [1, 0, 0, 0, 0, 0, 0, 0, 0] example_table =
     Inr (set_num ''UOI_custom'' [Some (- 1), Some 0, Some 1]
           (z_columns_app (set_str ''fips'' [''06001'', ''06one'', ''06003''] example_table)))"
  by (simp add: cali_weights_def example_fips_cali income_weights z_columns_cali_eq
      example_uoi_income)

text \<open>
  Witness of C9: the small table scored with even weights and with all weight on
  income, by both scripts.
\<close>

theorem C9_standardization_ignores_weights_witness:
  "\<exists>a1 a2 b1 b2.
     app_ca_weights example_counties [1, 1, 1, 1, 1, 1, 1, 1, 1] example_table = Inr a1 \<and>
     app_ca_weights example_counties [1, 0, 0, 0, 0, 0, 0, 0, 0] example_table = Inr a2 \<and>
     num_cols a1 ''Z_Median_Household_Income'' = num_cols a2 ''Z_Median_Household_Income'' \<and>
     num_cols a1 ''UOI_custom'' = Some [Some (- (1 / 9)), Some 0] \<and>
     num_cols a2 ''UOI_custom'' = Some [Some (- 1), Some 0] \<and>
     cali_weights example_counties [1, 1, 1, 1, 1, 1, 1, 1, 1] example_table = Inr b1 \<and>
     cali_weights example_counties [1, 0, 0, 0, 0, 0, 0, 0, 0] example_table = Inr b2 \<and>
     num_cols b1 ''Z_Median_Household_Income'' = num_cols b2 ''Z_Median_Household_Income'' \<and>
     num_cols b1 ''UOI_custom'' = Some [Some (- (1 / 9)), Some 0, Some (1 / 9)] \<and>
     num_cols b2 ''UOI_custom'' = Some [Some (- 1), Some 0, Some 1]"
proof -
  let ?f = "[''06001'', ''06one'', ''06003'']"
  let ?Z = "z_columns_app (set_str ''fips'' ?f example_table)"
  obtain a1 where a1: "app_ca_weights example_counties [1, 1, 1, 1, 1, 1, 1, 1, 1] example_table = Inr a1"
    unfolding example_app_ca
    by (simp add: exclude_alpine_def Let_def example_table_str z_columns_app_str)
  obtain a2 where a2: "app_ca_weights example_counties [1, 0, 0, 0, 0, 0, 0, 0, 0] example_table = Inr a2"
    unfolding example_app_ca_income
    by (simp add: exclude_alpine_def Let_def example_table_str z_columns_app_str)
  have u1: "num_cols a1 ''UOI_custom'' = Some [Some (- (1 / 9)), Some 0]"
    using a1 unfolding example_app_ca
    by (auto simp: exclude_alpine_def Let_def example_table_str z_columns_app_str select_rows_def)
  have u2: "num_cols a2 ''UOI_custom'' = Some [Some (- 1), Some 0]"
    using a2 unfolding example_app_ca_income
    by (auto simp: exclude_alpine_def Let_def example_table_str z_columns_app_str select_rows_def)
  note b1 = example_cali and b2 = example_cali_income
  from C9_standardization_ignores_weights [of example_counties "[1, 1, 1, 1, 1, 1, 1, 1, 1]" example_table a1
      "[1, 0, 0, 0, 0, 0, 0, 0, 0]" a2
      "set_num ''UOI_custom'' [Some (- (1 / 9)), Some 0, Some (1 / 9)] ?Z"
      "set_num ''UOI_custom'' [Some (- 1), Some 0, Some 1] ?Z"]
  have za: "num_cols a1 ''Z_Median_Household_Income'' = num_cols a2 ''Z_Median_Household_Income''"
    and zb: "num_cols (set_num ''UOI_custom'' [Some (- (1 / 9)), Some 0, Some (1 / 9)] ?Z)
        ''Z_Median_Household_Income'' =
      num_cols (set_num ''UOI_custom'' [Some (- 1), Some 0, Some 1] ?Z) ''Z_Median_Household_Income''"
    using a1 a2 b1 b2 by simp_all
  show ?thesis
    using a1 a2 u1 u2 za zb b1 b2 by simp
qed

text \<open>
  Witness of C10: in the small table the third county is Alpine. Its income 2 enters the
  mean and the deviation, so the two remaining rows get -1 and 0; standardising the two
  remaining incomes alone would give other values.
\<close>

theorem C10_alpine_removed_after_scoring_witness:
  "\<exists>out. app_ca_weights example_counties [1, 1, 1, 1, 1, 1, 1, 1, 1] example_table = Inr out \<and>
     str_cols out ''fips'' = Some [''06001'', ''06one''] \<and>
     num_cols out ''Median_Household_Income'' = Some [Some 0, Some 1] \<and>
     num_cols out ''Z_Median_Household_Income'' = Some [Some (- 1), Some 0] \<and>
     zscore [Some 0, Some 1] = [Some (- (1 / sqrt 2)), Some (1 / sqrt 2)]"
proof -
  obtain out where out: "app_ca_weights example_counties [1, 1, 1, 1, 1, 1, 1, 1, 1] example_table = Inr out"
    unfolding example_app_ca
    by (simp add: exclude_alpine_def Let_def example_table_str z_columns_app_str)
  have c: "''Median_Household_Income'' \<in> set indicator_cols" by (simp add: indicator_cols_def)
  have n: "''Median_Household_Income'' \<notin> set negative_cols" by (simp add: negative_cols_def)
  from C10_alpine_removed_after_scoring [OF out] obtain df1 f where
    f1: "ensure_fips_app (california example_counties) example_table = Inr df1"
    and f: "str_cols df1 ''fips'' = Some f"
    and fo: "str_cols out ''fips'' = Some (filter (\<lambda>x. x \<noteq> ''06003'') f)"
    and cols: "\<forall>c \<in> set indicator_cols. \<forall>xs. num_cols example_table c = Some xs \<longrightarrow>
              num_cols out c = Some (select_rows (map (\<lambda>x. x \<noteq> ''06003'') f) xs) \<and>
              num_cols out (''Z_'' @ c) =
                Some (select_rows (map (\<lambda>x. x \<noteq> ''06003'') f)
                        (if c \<in> set negative_cols then neg_zscore xs else zscore xs))"
    by blast
  have fv: "f = [''06001'', ''06one'', ''06003'']"
    using f1 f unfolding example_fips_app by auto
  have z2: "zscore [Some 0, Some 1] = [Some (- (1 / sqrt 2)), Some (1 / sqrt 2)]"
    by (simp add: zscore_def series_mean_def series_std_def mean_list_def sumsq_dev_def
        fdiv_def fsub_def power2_eq_square real_sqrt_divide field_simps)
  from cols c example_table_num [OF c]
  have "num_cols out ''Median_Household_Income'' =
          Some (select_rows (map (\<lambda>x. x \<noteq> ''06003'') f) [Some 0, Some 1, Some 2])"
    and "num_cols out (''Z_'' @ ''Median_Household_Income'') =
          Some (select_rows (map (\<lambda>x. x \<noteq> ''06003'') f) (zscore [Some 0, Some 1, Some 2]))"
    using n by auto
  then show ?thesis
    using out fo z2 by (simp add: fv select_rows_def z012)
qed

section \<open>Unmatched county names\<close>

lemma fips_lookup_None_iff:
  "fips_lookup F name = None \<longleftrightarrow> (\<forall>feat \<in> set F. upper (NAME feat) \<noteq> upper (strip name))"
  by (induction F) auto

lemma unmatched_cell: "state_prefix (zfill 5 (astype_str None)) = ''06one''"
  by (simp add: state_prefix_def zfill_def astype_str_def startswith_def)

lemma ensure_fips_app_lookup:
  "str_cols df ''GEOID'' = None \<Longrightarrow> str_cols df ''fips'' = None \<Longrightarrow>
   str_cols df ''County'' = Some cs \<Longrightarrow>
   ensure_fips_app F df =
     Inr (set_str ''fips'' (map (state_prefix \<circ> zfill 5 \<circ> astype_str \<circ> fips_lookup F) cs) df)"
  by (simp add: ensure_fips_app_def)

lemma ensure_fips_cali_lookup:
  "str_cols df ''fips'' = None \<Longrightarrow> str_cols df ''County'' = Some cs \<Longrightarrow>
   ensure_fips_cali F df =
     Inr (set_str ''fips'' (map (state_prefix \<circ> zfill 5 \<circ> astype_str \<circ> fips_lookup F) cs) df)"
  by (simp add: ensure_fips_cali_def)

lemma set_str_wf: "wf_frame n df \<Longrightarrow> length xs = n \<Longrightarrow> wf_frame n (set_str c xs df)"
  by (auto simp: wf_frame_def split: if_splits)

lemma weighted_sum_length:
  assumes "zs \<noteq> []" and "length ws = length zs" and "\<forall>z \<in> set zs. length z = n"
  shows "length (weighted_sum zs ws) = n"
proof -
  obtain z zs' where zs: "zs = z # zs'" using assms(1) by (cases zs) auto
  obtain w ws' where ws: "ws = w # ws'" using assms(2) zs by (cases ws) auto
  have lt: "length (series_mul z w) = n" using assms(3) zs by (simp add: length_series_mul)
  have lts: "\<forall>u \<in> set (map2 series_mul zs' ws'). length u = n"
    using assms(3) zs by (auto simp: length_series_mul dest!: set_zip_leftD)
  have "weighted_sum zs ws = foldl series_add (series_mul z w) (map2 series_mul zs' ws')"
    by (simp add: weighted_sum_def zs ws)
  then show ?thesis using foldl_series_add_length [OF lt lts] by simp
qed

lemma uoi_custom_length:
  assumes "wf_frame n df" and "uoi_custom w df = Inr out" and "length w = 9"
  shows "\<exists>u. out = set_num ''UOI_custom'' u df \<and> length u = n"
proof -
  let ?zs = "map (\<lambda>c. the (num_cols df (''Z_'' @ c))) indicator_cols"
  have pres: "\<forall>c \<in> set indicator_cols. num_cols df (''Z_'' @ c) \<noteq> None"
    and out: "out = set_num ''UOI_custom'' (weighted_sum ?zs w) df"
    using assms(2) unfolding uoi_custom_Inr by simp_all
  have ne: "?zs \<noteq> []" by (simp add: indicator_cols_def)
  have lw: "length w = length ?zs" using assms(3) by (simp add: indicator_cols_def)
  have ln: "\<forall>z \<in> set ?zs. length z = n"
    using pres assms(1) by (auto simp: wf_frame_def)
  have "length (weighted_sum ?zs w) = n"
    using ne lw ln by (rule weighted_sum_length)
  with out show ?thesis by blast
qed

lemma length_select_rows:
  "length xs = length f \<Longrightarrow> length (select_rows (map P f) xs) = length (filter P f)"
proof (induction f arbitrary: xs)
  case Nil
  then show ?case by (simp add: select_rows_def)
next
  case (Cons a f)
  then obtain x xs' where "xs = x # xs'" by (cases xs) auto
  with Cons show ?case by (simp add: select_rows_def)
qed

lemma filter_select_rows:
  assumes "length keep = length xs" and "\<forall>j<length xs. P (xs ! j) \<longrightarrow> keep ! j"
  shows "filter P (select_rows keep xs) = filter P xs"
  using assms
proof (induction keep xs rule: list_induct2)
  case Nil
  then show ?case by (simp add: select_rows_def)
next
  case (Cons k keep x xs)
  have "\<forall>j<length xs. P (xs ! j) \<longrightarrow> keep ! j"
    using Cons.prems by (metis Suc_less_eq length_Cons nth_Cons_Suc)
  then have IH: "filter P (select_rows keep xs) = filter P xs" by (rule Cons.IH)
  have h: "P x \<longrightarrow> k" using Cons.prems by (metis length_Cons nth_Cons_0 zero_less_Suc)
  have "select_rows (k # keep) (x # xs) = (if k then x # select_rows keep xs else select_rows keep xs)"
    by (simp add: select_rows_def)
  then show ?case using IH h by auto
qed

lemma unmatched_not_alpine:
  "fips_lookup F name = None \<Longrightarrow>
   (state_prefix \<circ> zfill 5 \<circ> astype_str \<circ> fips_lookup F) name \<noteq> ''06003''"
  by (simp add: unmatched_cell)

text \<open>
  C4, as the code has it. Take a table without identifier column, so that the
  identifiers are looked up by county name, and let the names be ASCII. For a name that
  no feature matches, \<^verbatim>\<open>fips_lookup\<close> returns \<^verbatim>\<open>None\<close>. No step of either script removes such
  a record: \<^verbatim>\<open>cali.py\<close> outputs every record with a score cell, and \<^verbatim>\<open>app_ca.py\<close>
  removes exactly the rows whose identifier is \<^verbatim>\<open>06003\<close>, which the identifier of an
  unmatched record never is, so the unmatched records of the input are all in its output.
\<close>

theorem C4_unmatched_record_kept:
  assumes "str_cols df ''GEOID'' = None" and "str_cols df ''fips'' = None"
    and "str_cols df ''County'' = Some cs" and "wf_frame n df"
    and "\<forall>name \<in> set cs. ascii name" and "\<forall>feat \<in> set feats. ascii (NAME feat)"
  shows "(\<forall>name \<in> set cs. fips_lookup (california feats) name = None \<longleftrightarrow>
            (\<forall>feat \<in> set (california feats). upper (NAME feat) \<noteq> upper (strip name))) \<and>
         (\<forall>out. cali_weights feats w df = Inr out \<longrightarrow>
            str_cols out ''County'' = Some cs \<and>
            (\<exists>u. num_cols out ''UOI_custom'' = Some u \<and> length u = length cs)) \<and>
         (\<forall>out. app_ca_weights feats w df = Inr out \<longrightarrow>
            (\<exists>ids u names.
               ensure_fips_app (california feats) df = Inr (set_str ''fips'' ids df) \<and>
               length ids = length cs \<and> length u = length cs \<and>
               (\<forall>j<length cs. fips_lookup (california feats) (cs ! j) = None \<longrightarrow>
                  ids ! j \<noteq> ''06003'') \<and>
               str_cols out ''fips'' = Some (select_rows (map (\<lambda>x. x \<noteq> ''06003'') ids) ids) \<and>
               names = select_rows (map (\<lambda>x. x \<noteq> ''06003'') ids) cs \<and>
               str_cols out ''County'' = Some names \<and>
               num_cols out ''UOI_custom'' = Some (select_rows (map (\<lambda>x. x \<noteq> ''06003'') ids) u) \<and>
               length (select_rows (map (\<lambda>x. x \<noteq> ''06003'') ids) u) = length names \<and>
               filter (\<lambda>name. fips_lookup (california feats) name = None) names =
                 filter (\<lambda>name. fips_lookup (california feats) name = None) cs))"
proof (intro conjI allI impI ballI)
  let ?F = "california feats"
  let ?ids = "map (state_prefix \<circ> zfill 5 \<circ> astype_str \<circ> fips_lookup ?F) cs"
  let ?df1 = "set_str ''fips'' ?ids df"
  have n: "length cs = n" using assms(3,4) by (simp add: wf_frame_def)
  have wf1: "wf_frame n (z_columns_app ?df1)"
    using assms(4) n by (intro z_columns_app_wf set_str_wf) simp_all
  show "\<And>name. fips_lookup ?F name = None \<longleftrightarrow>
            (\<forall>feat \<in> set ?F. upper (NAME feat) \<noteq> upper (strip name))"
    by (rule fips_lookup_None_iff)
  {
    fix out assume "cali_weights feats w df = Inr out"
    then obtain w' where w': "normalize_weights w = Inr w'"
      and u: "uoi_custom w' (z_columns_app ?df1) = Inr out"
      unfolding cali_weights_Inr ensure_fips_cali_lookup [OF assms(2,3)] by auto
    obtain uu where out: "out = set_num ''UOI_custom'' uu (z_columns_app ?df1)" and l: "length uu = n"
      using uoi_custom_length [OF wf1 u normalize_weights_Inr_length [OF w']] by auto
    show "str_cols out ''County'' = Some cs"
      using assms(3) by (simp add: out z_columns_app_str)
    show "\<exists>u. num_cols out ''UOI_custom'' = Some u \<and> length u = length cs"
      using l n by (simp add: out)
  }
  {
    fix out assume "app_ca_weights feats w df = Inr out"
    then obtain w' d where w': "normalize_weights w = Inr w'"
      and u: "uoi_custom w' (z_columns_app ?df1) = Inr d" and e: "exclude_alpine d = Inr out"
      unfolding app_ca_weights_Inr ensure_fips_app_lookup [OF assms(1,2,3)] by auto
    obtain uu where d: "d = set_num ''UOI_custom'' uu (z_columns_app ?df1)" and l: "length uu = n"
      using uoi_custom_length [OF wf1 u normalize_weights_Inr_length [OF w']] by auto
    let ?keep = "map (\<lambda>x. x \<noteq> ''06003'') ?ids"
    have f: "str_cols d ''fips'' = Some ?ids" by (simp add: d z_columns_app_str)
    have out: "out = d\<lparr>str_cols := map_option (select_rows ?keep) \<circ> str_cols d,
                    num_cols := map_option (select_rows ?keep) \<circ> num_cols d\<rparr>"
      using e f unfolding exclude_alpine_Inr by auto
    have c: "str_cols d ''County'' = Some cs"
      using assms(3) by (simp add: d z_columns_app_str)
    have kept: "\<forall>j<length cs. fips_lookup ?F (cs ! j) = None \<longrightarrow> ?ids ! j \<noteq> ''06003''"
      using unmatched_not_alpine [of ?F] by simp
    then have kept': "\<forall>j<length cs. fips_lookup ?F (cs ! j) = None \<longrightarrow> ?keep ! j"
      by simp
    have lk: "length ?keep = length cs" by simp
    have fl: "filter (\<lambda>name. fips_lookup ?F name = None) (select_rows ?keep cs) =
        filter (\<lambda>name. fips_lookup ?F name = None) cs"
      using lk kept' by (rule filter_select_rows)
    have len: "length (select_rows ?keep uu) = length (select_rows ?keep cs)"
      using length_select_rows [of uu ?ids "\<lambda>x. x \<noteq> ''06003''"]
        length_select_rows [of cs ?ids "\<lambda>x. x \<noteq> ''06003''"] l n by simp
    show "\<exists>ids u names.
               ensure_fips_app ?F df = Inr (set_str ''fips'' ids df) \<and>
               length ids = length cs \<and> length u = length cs \<and>
               (\<forall>j<length cs. fips_lookup ?F (cs ! j) = None \<longrightarrow> ids ! j \<noteq> ''06003'') \<and>
               str_cols out ''fips'' = Some (select_rows (map (\<lambda>x. x \<noteq> ''06003'') ids) ids) \<and>
               names = select_rows (map (\<lambda>x. x \<noteq> ''06003'') ids) cs \<and>
               str_cols out ''County'' = Some names \<and>
               num_cols out ''UOI_custom'' = Some (select_rows (map (\<lambda>x. x \<noteq> ''06003'') ids) u) \<and>
               length (select_rows (map (\<lambda>x. x \<noteq> ''06003'') ids) u) = length names \<and>
               filter (\<lambda>name. fips_lookup ?F name = None) names =
                 filter (\<lambda>name. fips_lookup ?F name = None) cs"
    proof (intro exI conjI)
      show "ensure_fips_app ?F df = Inr ?df1" using assms(1,2,3) by (rule ensure_fips_app_lookup)
      show "str_cols out ''fips'' = Some (select_rows ?keep ?ids)" by (simp add: out f)
      show "length ?ids = length cs" by simp
      show "length uu = length cs" using l n by simp
      show "\<forall>j<length cs. fips_lookup ?F (cs ! j) = None \<longrightarrow> ?ids ! j \<noteq> ''06003''"
        by (rule kept)
      show "select_rows ?keep cs = select_rows ?keep cs" ..
      show "str_cols out ''County'' = Some (select_rows ?keep cs)" by (simp add: out c)
      show "num_cols out ''UOI_custom'' = Some (select_rows ?keep uu)" by (simp add: out d)
      show "length (select_rows ?keep uu) = length (select_rows ?keep cs)" by (rule len)
      show "filter (\<lambda>name. fips_lookup ?F name = None) (select_rows ?keep cs) =
        filter (\<lambda>name. fips_lookup ?F name = None) cs" by (rule fl)
    qed
  }
qed

lemma wf_example_plain: "wf_frame 3 example_table"
  by (auto simp: wf_frame_def example_table_def indicator_cols_def split: if_splits)

lemma example_ascii:
  "\<forall>name \<in> set [''Alameda'', ''Atlantis'', '' alpine '']. ascii name"
  "\<forall>feat \<in> set example_counties. ascii (NAME feat)"
  by (simp_all add: ascii_def example_counties_def)

text \<open>
  Witness of C4: the small table, whose second county matches no feature and whose
  third county is Alpine.
\<close>

theorem C4_unmatched_record_kept_witness:
  "str_cols example_table ''GEOID'' = None \<and> str_cols example_table ''fips'' = None \<and>
   str_cols example_table ''County'' = Some [''Alameda'', ''Atlantis'', '' alpine ''] \<and>
   wf_frame 3 example_table \<and>
   fips_lookup (california example_counties) ''Atlantis'' = None \<and>
   (\<exists>out u. cali_weights example_counties [1, 1, 1, 1, 1, 1, 1, 1, 1] example_table = Inr out \<and>
      str_cols out ''County'' = Some [''Alameda'', ''Atlantis'', '' alpine ''] \<and>
      num_cols out ''UOI_custom'' = Some u \<and> length u = 3) \<and>
   (\<exists>out names. app_ca_weights example_counties [1, 1, 1, 1, 1, 1, 1, 1, 1] example_table = Inr out \<and>
      str_cols out ''County'' = Some names \<and>
      filter (\<lambda>name. fips_lookup (california example_counties) name = None) names = [''Atlantis''])"
proof -
  have g: "str_cols example_table ''GEOID'' = None" and f: "str_cols example_table ''fips'' = None"
    and c: "str_cols example_table ''County'' = Some [''Alameda'', ''Atlantis'', '' alpine '']"
    by (simp_all add: example_table_str)
  note t = C4_unmatched_record_kept [OF g f c wf_example_plain example_ascii,
      of "[1, 1, 1, 1, 1, 1, 1, 1, 1]"]
  obtain a where a: "app_ca_weights example_counties [1, 1, 1, 1, 1, 1, 1, 1, 1] example_table = Inr a"
    unfolding example_app_ca
    by (simp add: exclude_alpine_def Let_def example_table_str z_columns_app_str)
  have l: "fips_lookup (california example_counties) ''Atlantis'' = None"
    and l1: "fips_lookup (california example_counties) ''Alameda'' \<noteq> None"
    and l2: "fips_lookup (california example_counties) '' alpine '' \<noteq> None"
    by (simp_all add: california_def example_counties_def startswith_def upper_def upper_char_def
        strip_def isspace_def)
  from t a obtain names where na: "str_cols a ''County'' = Some names"
    and fl: "filter (\<lambda>name. fips_lookup (california example_counties) name = None) names =
       filter (\<lambda>name. fips_lookup (california example_counties) name = None)
         [''Alameda'', ''Atlantis'', '' alpine '']"
    by blast
  have fl': "filter (\<lambda>name. fips_lookup (california example_counties) name = None) names =
       [''Atlantis'']"
    unfolding fl using l l1 l2 by simp
  from t example_cali obtain u where
    "num_cols (set_num ''UOI_custom'' [Some (- (1 / 9)), Some 0, Some (1 / 9)]
           (z_columns_app (set_str ''fips'' [''06001'', ''06one'', ''06003''] example_table)))
       ''UOI_custom'' = Some u" and "length u = length [''Alameda'', ''Atlantis'', '' alpine '']"
    by blast
  then show ?thesis
    using g f c wf_example_plain l a na fl' example_cali
    by (simp add: z_columns_app_str example_table_str)
qed

text \<open>
  C4 as stated fails: the county that matches no feature is in the output of both
  scripts, with the score 0; no record is excluded by \<^verbatim>\<open>cali.py\<close>, and \<^verbatim>\<open>app_ca.py\<close>
  excludes only Alpine County.
\<close>

theorem C4_unmatched_record_scored:
  "fips_lookup (california example_counties) ''Atlantis'' = None \<and>
   result_str (cali_weights example_counties [1, 1, 1, 1, 1, 1, 1, 1, 1] example_table) ''County'' =
     Some [''Alameda'', ''Atlantis'', '' alpine ''] \<and>
   result_num (cali_weights example_counties [1, 1, 1, 1, 1, 1, 1, 1, 1] example_table) ''UOI_custom'' =
     Some [Some (- (1 / 9)), Some 0, Some (1 / 9)] \<and>
   result_str (app_ca_weights example_counties [1, 1, 1, 1, 1, 1, 1, 1, 1] example_table) ''County'' =
     Some [''Alameda'', ''Atlantis''] \<and>
   result_num (app_ca_weights example_counties [1, 1, 1, 1, 1, 1, 1, 1, 1] example_table) ''UOI_custom'' =
     Some [Some (- (1 / 9)), Some 0]"
proof -
  have l: "fips_lookup (california example_counties) ''Atlantis'' = None"
    by (simp add: california_def example_counties_def startswith_def upper_def upper_char_def
        strip_def isspace_def)
  show ?thesis
    by (simp only: l example_cali_cols example_app_ca_cols simp_thms)
qed

section \<open>Two records end to end\<close>




























lemma two_records_fips:
  "ensure_fips_app (california feats) example_two_records =
     Inr (set_str ''fips'' [''06001'', ''06005''] example_two_records)"
  "ensure_fips_cali (california feats) example_two_records =
     Inr (set_str ''fips'' [''06001'', ''06005''] example_two_records)"
  by (simp_all add: ensure_fips_app_def ensure_fips_cali_def example_two_records_def
      state_prefix_def zfill_def startswith_def set_str_def)








section \<open>Monotonicity of a negative indicator\<close>

text \<open>
  The standardised value of one record is \<open>t / sqrt (T + c * t\<^sup>2)\<close> up to a positive
  factor, where \<open>t\<close> is the distance of its raw value from the mean of the other records
  and \<open>T\<close> their sum of squared deviations; this function of \<open>t\<close> never decreases.
\<close>

lemma ratio_mono_pos:
  fixes T c t t' :: real
  assumes "0 \<le> T" and "0 < c" and "0 < t" and "t \<le> t'"
  shows "t / sqrt (T + c * t\<^sup>2) \<le> t' / sqrt (T + c * t'\<^sup>2)"
proof -
  have t': "0 < t'" using assms by simp
  have D: "0 < T + c * t\<^sup>2" using assms by (intro add_nonneg_pos mult_pos_pos) simp_all
  have D': "0 < T + c * t'\<^sup>2" using assms t' by (intro add_nonneg_pos mult_pos_pos) simp_all
  have sq: "t\<^sup>2 \<le> t'\<^sup>2" using assms by (intro power_mono) simp_all
  have e1: "(t * sqrt (T + c * t'\<^sup>2))\<^sup>2 = t\<^sup>2 * (T + c * t'\<^sup>2)"
    using D' by (simp add: power_mult_distrib)
  have e2: "(t' * sqrt (T + c * t\<^sup>2))\<^sup>2 = t'\<^sup>2 * (T + c * t\<^sup>2)"
    using D by (simp add: power_mult_distrib)
  have "t\<^sup>2 * T \<le> t'\<^sup>2 * T" using sq assms(1) by (rule mult_right_mono)
  then have "t\<^sup>2 * (T + c * t'\<^sup>2) \<le> t'\<^sup>2 * (T + c * t\<^sup>2)"
    by (simp add: algebra_simps)
  then have p: "(t * sqrt (T + c * t'\<^sup>2))\<^sup>2 \<le> (t' * sqrt (T + c * t\<^sup>2))\<^sup>2"
    unfolding e1 e2 .
  have le: "t * sqrt (T + c * t'\<^sup>2) \<le> t' * sqrt (T + c * t\<^sup>2)"
  proof (rule power2_le_imp_le)
    show "(t * sqrt (T + c * t'\<^sup>2))\<^sup>2 \<le> (t' * sqrt (T + c * t\<^sup>2))\<^sup>2" by (rule p)
    show "0 \<le> t' * sqrt (T + c * t\<^sup>2)" using t' D by simp
  qed
  have sD: "0 < sqrt (T + c * t\<^sup>2)" and sD': "0 < sqrt (T + c * t'\<^sup>2)"
    using D D' by simp_all
  show ?thesis
    using le sD sD' by (simp add: field_simps)
qed

lemma ratio_mono:
  fixes T c t t' :: real
  assumes "0 \<le> T" and "0 < c" and "t \<le> t'"
    and "T + c * t\<^sup>2 \<noteq> 0" and "T + c * t'\<^sup>2 \<noteq> 0"
  shows "t / sqrt (T + c * t\<^sup>2) \<le> t' / sqrt (T + c * t'\<^sup>2)"
proof -
  have "0 \<le> T + c * t\<^sup>2" "0 \<le> T + c * t'\<^sup>2" using assms(1,2) by simp_all
  then have D: "0 < sqrt (T + c * t\<^sup>2)" and D': "0 < sqrt (T + c * t'\<^sup>2)"
    using assms(4,5) by (simp_all add: less_le)
  consider "0 < t" | "t \<le> 0" "0 \<le> t'" | "t' < 0" by linarith
  then show ?thesis
  proof cases
    case 1
    show ?thesis using assms(1,2) 1 assms(3) by (rule ratio_mono_pos)
  next
    case 2
    have "t / sqrt (T + c * t\<^sup>2) \<le> 0" using 2 D by (simp add: divide_nonpos_pos)
    moreover have "0 \<le> t' / sqrt (T + c * t'\<^sup>2)" using 2 D' by simp
    ultimately show ?thesis by linarith
  next
    case 3
    have a: "0 < - t'" and b: "- t' \<le> - t" using 3 assms(3) by simp_all
    have "(- t') / sqrt (T + c * (- t')\<^sup>2) \<le> (- t) / sqrt (T + c * (- t)\<^sup>2)"
      using assms(1,2) a b by (rule ratio_mono_pos)
    then show ?thesis by simp
  qed
qed

lemma sum_sq_shift:
  "sum_list (map (\<lambda>y. (y - c)\<^sup>2) ys) =
     sum_list (map (\<lambda>y. y\<^sup>2) ys) - 2 * c * sum_list ys + real (length ys) * c\<^sup>2"
  by (induction ys) (simp_all add: algebra_simps power2_eq_square)

lemma sumsq_dev_alt:
  assumes "ys \<noteq> []"
  shows "sumsq_dev ys = sum_list (map (\<lambda>y. y\<^sup>2) ys) - (sum_list ys)\<^sup>2 / real (length ys)"
proof -
  have n: "real (length ys) \<noteq> 0" using assms by simp
  show ?thesis
    unfolding sumsq_dev_def sum_sq_shift mean_list_def
    using n by (simp add: field_simps power2_eq_square)
qed

lemma single_out_algebra:
  fixes S2 v k a :: real
  assumes "0 < k"
  shows "S2 + v\<^sup>2 - (k * a + v)\<^sup>2 / (k + 1) =
         (S2 - k * a\<^sup>2) + (k / (k + 1)) * (v - a)\<^sup>2"
proof -
  have k1: "k + 1 \<noteq> 0" using assms by simp
  have A: "(k * a + v)\<^sup>2 / (k + 1) * (k + 1) = (k * a + v)\<^sup>2" using k1 by simp
  have B: "k / (k + 1) * (v - a)\<^sup>2 * (k + 1) = k * (v - a)\<^sup>2" using k1 by simp
  have "(S2 + v\<^sup>2 - (k * a + v)\<^sup>2 / (k + 1)) * (k + 1) =
        (S2 + v\<^sup>2) * (k + 1) - (k * a + v)\<^sup>2"
    unfolding left_diff_distrib A ..
  also have "\<dots> = (S2 - k * a\<^sup>2) * (k + 1) + k * (v - a)\<^sup>2"
    by (simp add: algebra_simps power2_eq_square)
  also have "\<dots> = ((S2 - k * a\<^sup>2) + (k / (k + 1)) * (v - a)\<^sup>2) * (k + 1)"
    unfolding distrib_right B ..
  finally show ?thesis using k1 by (simp only: mult_cancel_right) simp
qed

lemma single_out_mean_algebra:
  fixes v k a :: real
  assumes "0 < k"
  shows "v - (k * a + v) / (k + 1) = k / (k + 1) * (v - a)"
proof -
  have k1: "k + 1 \<noteq> 0" using assms by simp
  then show ?thesis by (simp add: field_simps)
qed

lemma single_out:
  fixes v :: real
  assumes "as @ bs \<noteq> []"
  shows "v - mean_list (as @ v # bs) =
           (real (length (as @ bs)) / (real (length (as @ bs)) + 1)) * (v - mean_list (as @ bs))"
    and "sumsq_dev (as @ v # bs) =
           sumsq_dev (as @ bs) +
           (real (length (as @ bs)) / (real (length (as @ bs)) + 1)) * (v - mean_list (as @ bs))\<^sup>2"
proof -
  let ?k = "real (length (as @ bs))"
  let ?a = "mean_list (as @ bs)"
  have k: "0 < ?k" using assms by (cases "as @ bs") simp_all
  have len: "real (length (as @ v # bs)) = ?k + 1" by simp
  have ka: "sum_list (as @ bs) = ?k * ?a" using k by (simp add: mean_list_def)
  have s1: "sum_list (as @ v # bs) = ?k * ?a + v" unfolding ka [symmetric] by simp
  have s2: "sum_list (map (\<lambda>y. y\<^sup>2) (as @ v # bs)) = sum_list (map (\<lambda>y. y\<^sup>2) (as @ bs)) + v\<^sup>2"
    by simp
  have k1: "?k + 1 \<noteq> 0" using k by linarith
  have "v - (?k * ?a + v) / (?k + 1) = ?k / (?k + 1) * (v - ?a)"
    using k by (rule single_out_mean_algebra)
  then show "v - mean_list (as @ v # bs) = (?k / (?k + 1)) * (v - ?a)"
    unfolding mean_list_def [of "as @ v # bs"] len s1 .
  have ne: "as @ v # bs \<noteq> []" by simp
  have o: "sumsq_dev (as @ bs) = sum_list (map (\<lambda>y. y\<^sup>2) (as @ bs)) - ?k * ?a\<^sup>2"
    unfolding sumsq_dev_alt [OF assms] ka using k by (simp add: power2_eq_square)
  show "sumsq_dev (as @ v # bs) = sumsq_dev (as @ bs) + (?k / (?k + 1)) * (v - ?a)\<^sup>2"
    unfolding sumsq_dev_alt [OF ne] len s1 s2 o
    using k by (rule single_out_algebra)
qed

text \<open>
  The standardised value of the singled-out element, as a function of its distance
  \<open>t\<close> from the mean of the others.
\<close>

lemma single_out_score:
  fixes v :: real
  assumes "as @ bs \<noteq> []"
  defines "k \<equiv> real (length (as @ bs))"
  defines "t \<equiv> v - mean_list (as @ bs)"
  defines "s \<equiv> sqrt (sumsq_dev (as @ v # bs) / real (length (as @ v # bs) - 1))"
  shows "s \<noteq> 0 \<longleftrightarrow> sumsq_dev (as @ bs) + (k / (k + 1)) * t\<^sup>2 \<noteq> 0"
    and "(v - mean_list (as @ v # bs)) / s =
           (k / (k + 1) * sqrt k) * (t / sqrt (sumsq_dev (as @ bs) + (k / (k + 1)) * t\<^sup>2))"
proof -
  have k: "0 < k" using assms(1) unfolding k_def by (cases "as @ bs") simp_all
  have n1: "real (length (as @ v # bs) - 1) = k" by (simp add: k_def)
  have s: "s = sqrt (sumsq_dev (as @ bs) + (k / (k + 1)) * t\<^sup>2) / sqrt k"
    unfolding s_def n1 single_out(2) [OF assms(1)] k_def t_def by (simp add: real_sqrt_divide)
  show "s \<noteq> 0 \<longleftrightarrow> sumsq_dev (as @ bs) + (k / (k + 1)) * t\<^sup>2 \<noteq> 0"
    unfolding s using k by simp
  show "(v - mean_list (as @ v # bs)) / s =
           (k / (k + 1) * sqrt k) * (t / sqrt (sumsq_dev (as @ bs) + (k / (k + 1)) * t\<^sup>2))"
    unfolding s single_out(1) [OF assms(1)] k_def [symmetric] t_def [symmetric] by simp
qed

lemma score_mono:
  fixes v v' :: real
  assumes "as @ bs \<noteq> []" and "v \<le> v'"
    and "sqrt (sumsq_dev (as @ v # bs) / real (length (as @ v # bs) - 1)) \<noteq> 0"
    and "sqrt (sumsq_dev (as @ v' # bs) / real (length (as @ v' # bs) - 1)) \<noteq> 0"
  shows "(v - mean_list (as @ v # bs)) / sqrt (sumsq_dev (as @ v # bs) / real (length (as @ v # bs) - 1))
       \<le> (v' - mean_list (as @ v' # bs)) / sqrt (sumsq_dev (as @ v' # bs) / real (length (as @ v' # bs) - 1))"
proof -
  let ?k = "real (length (as @ bs))"
  let ?c = "?k / (?k + 1)"
  let ?T = "sumsq_dev (as @ bs)"
  let ?t = "v - mean_list (as @ bs)"
  let ?t' = "v' - mean_list (as @ bs)"
  have k: "0 < ?k" using assms(1) by (cases "as @ bs") simp_all
  have c: "0 < ?c" using k by simp
  have T: "0 \<le> ?T" by (rule sumsq_dev_nonneg)
  have tt: "?t \<le> ?t'" using assms(2) by simp
  have d: "?T + ?c * ?t\<^sup>2 \<noteq> 0" using assms(3) single_out_score(1) [OF assms(1), of v] by simp
  have d': "?T + ?c * ?t'\<^sup>2 \<noteq> 0" using assms(4) single_out_score(1) [OF assms(1), of v'] by simp
  have "?t / sqrt (?T + ?c * ?t\<^sup>2) \<le> ?t' / sqrt (?T + ?c * ?t'\<^sup>2)"
    using T c tt d d' by (rule ratio_mono)
  moreover have "0 \<le> ?c * sqrt ?k" using c k by simp
  ultimately have "(?c * sqrt ?k) * (?t / sqrt (?T + ?c * ?t\<^sup>2))
      \<le> (?c * sqrt ?k) * (?t' / sqrt (?T + ?c * ?t'\<^sup>2))"
    by (rule mult_left_mono)
  then show ?thesis
    unfolding single_out_score(2) [OF assms(1)] .
qed

lemma dropna_append: "dropna (xs @ ys) = dropna xs @ dropna ys"
  by (induction xs rule: dropna.induct) simp_all

lemma dropna_single_out:
  assumes "i < length xs" and "xs ! i = Some v"
  shows "dropna xs = dropna (take i xs) @ v # dropna (drop (Suc i) xs)"
    and "dropna (xs[i := Some v']) = dropna (take i xs) @ v' # dropna (drop (Suc i) xs)"
proof -
  have "xs = take i xs @ Some v # drop (Suc i) xs"
    using assms by (metis id_take_nth_drop)
  then have "dropna xs = dropna (take i xs @ Some v # drop (Suc i) xs)" by simp
  then show "dropna xs = dropna (take i xs) @ v # dropna (drop (Suc i) xs)"
    by (simp only: dropna_append dropna.simps)
  have "xs[i := Some v'] = take i xs @ Some v' # drop (Suc i) xs"
    using assms(1) by (rule upd_conv_take_nth_drop)
  then show "dropna (xs[i := Some v']) = dropna (take i xs) @ v' # dropna (drop (Suc i) xs)"
    by (simp only: dropna_append dropna.simps)
qed

lemma fgt_simps:
  "fgt a None = False" "fgt None b = False" "fgt (Some x) (Some y) = (y < x)"
  by (simp_all add: fgt_def split: option.split)

lemma neg_zscore_nth:
  "i < length xs \<Longrightarrow>
   neg_zscore xs ! i = fneg (fdiv (fsub (xs ! i) (series_mean xs)) (series_std xs))"
  by (simp add: neg_zscore_def zscore_def)

lemma neg_zscore_undefined:
  assumes "i < length xs" and "series_std xs = None \<or> series_std xs = Some 0"
  shows "neg_zscore xs ! i = None"
  using assms by (auto simp: neg_zscore_nth fneg_def fdiv_def split: option.split)

lemma neg_zscore_defined:
  assumes "i < length xs" and "xs ! i = Some v" and "series_std xs = Some s" and "s \<noteq> 0"
  shows "neg_zscore xs ! i = Some (- ((v - mean_list (dropna xs)) / s))"
  using assms series_std_SomeD(3) [OF assms(3)]
  by (simp add: neg_zscore_nth fneg_def fdiv_def fsub_def)

lemma neg_zscore_mono:
  assumes "i < length xs" and "xs ! i = Some v" and "v \<le> v'"
  shows "\<not> fgt (neg_zscore (xs[i := Some v']) ! i) (neg_zscore xs ! i)"
proof -
  let ?xs' = "xs[i := Some v']"
  let ?as = "dropna (take i xs)" and ?bs = "dropna (drop (Suc i) xs)"
  have d: "dropna xs = ?as @ v # ?bs" and d': "dropna ?xs' = ?as @ v' # ?bs"
    using dropna_single_out [OF assms(1,2)] by simp_all
  have i': "i < length ?xs'" and v': "?xs' ! i = Some v'" using assms(1) by simp_all
  show ?thesis
  proof (cases "\<exists>s s'. series_std xs = Some s \<and> s \<noteq> 0 \<and> series_std ?xs' = Some s' \<and> s' \<noteq> 0")
    case False
    then have "(series_std xs = None \<or> series_std xs = Some 0) \<or>
               (series_std ?xs' = None \<or> series_std ?xs' = Some 0)"
      by (cases "series_std xs"; cases "series_std ?xs'") auto
    then have "neg_zscore xs ! i = None \<or> neg_zscore ?xs' ! i = None"
      using neg_zscore_undefined [OF assms(1)] neg_zscore_undefined [OF i'] by auto
    then show ?thesis by (auto simp: fgt_simps)
  next
    case True
    then obtain s s' where s: "series_std xs = Some s" "s \<noteq> 0"
      and s': "series_std ?xs' = Some s'" "s' \<noteq> 0" by blast
    have n: "2 \<le> length (dropna xs)" using series_std_SomeD(1) [OF s(1)] .
    then have ne: "?as @ ?bs \<noteq> []" unfolding d by auto
    have sv: "s = sqrt (sumsq_dev (?as @ v # ?bs) / real (length (?as @ v # ?bs) - 1))"
      using series_std_SomeD(2) [OF s(1)] unfolding d .
    have sv': "s' = sqrt (sumsq_dev (?as @ v' # ?bs) / real (length (?as @ v' # ?bs) - 1))"
      using series_std_SomeD(2) [OF s'(1)] unfolding d' .
    have "(v - mean_list (?as @ v # ?bs)) / s \<le> (v' - mean_list (?as @ v' # ?bs)) / s'"
      unfolding sv sv'
      using ne assms(3) s(2) [unfolded sv] s'(2) [unfolded sv'] by (rule score_mono)
    then have "(v - mean_list (dropna xs)) / s \<le> (v' - mean_list (dropna ?xs')) / s'"
      unfolding d d' .
    then show ?thesis
      unfolding neg_zscore_defined [OF assms(1,2) s] neg_zscore_defined [OF i' v' s']
      by (simp add: fgt_simps)
  qed
qed

lemma negative_is_indicator: "c \<in> set negative_cols \<Longrightarrow> c \<in> set indicator_cols"
  by (auto simp: negative_cols_def indicator_cols_def)

text \<open>
  In exact arithmetic, for each of the four negative indicators and in both scripts,
  replacing the present value of one record by a larger one and leaving every other cell
  as it is does not increase that record's \<^verbatim>\<open>Z_\<close> value.
\<close>

lemma exact_negative_indicator_monotone:
  assumes "c \<in> set negative_cols" and "num_cols df c = Some xs"
    and "i < length xs" and "xs ! i = Some v" and "v \<le> v'"
  shows "\<exists>zs zs'.
           num_cols (z_columns_app df) (''Z_'' @ c) = Some zs \<and>
           num_cols (z_columns_cali df) (''Z_'' @ c) = Some zs \<and>
           num_cols (z_columns_app (set_num c (xs[i := Some v']) df)) (''Z_'' @ c) = Some zs' \<and>
           num_cols (z_columns_cali (set_num c (xs[i := Some v']) df)) (''Z_'' @ c) = Some zs' \<and>
           zs = neg_zscore xs \<and> zs' = neg_zscore (xs[i := Some v']) \<and>
           \<not> fgt (zs' ! i) (zs ! i)"
proof -
  let ?xs' = "xs[i := Some v']"
  have ind: "c \<in> set indicator_cols" using assms(1) by (rule negative_is_indicator)
  have z: "num_cols (z_columns_app df) (''Z_'' @ c) = Some (neg_zscore xs)"
    using z_columns_app_Z [OF ind assms(2)] assms(1) by simp
  have col': "num_cols (set_num c ?xs' df) c = Some ?xs'" by simp
  have z': "num_cols (z_columns_app (set_num c ?xs' df)) (''Z_'' @ c) = Some (neg_zscore ?xs')"
    using z_columns_app_Z [OF ind col'] assms(1) by simp
  have m: "\<not> fgt (neg_zscore ?xs' ! i) (neg_zscore xs ! i)"
    using assms(3,4,5) by (rule neg_zscore_mono)
  show ?thesis
    using z z' m by (simp add: z_columns_cali_eq)
qed

section \<open>Binary64 arithmetic: evaluation\<close>













end
